theory Spec2Isabelle
  imports Main "HOL-Library.Word"
begin

section \<open>Status codes\<close>

text \<open>
  An \<open>HRESULT\<close> is a signed 32-bit integer; \<open>FAILED\<close> and \<open>SUCCEEDED\<close> test its sign.
  The named codes have the values of the platform headers (\<open>winerror.h\<close>, \<open>corerror.h\<close>)
  the source is compiled against; only their signs and their being different matter below.
\<close>

type_synonym HRESULT = "32 word"
type_synonym DWORD = "32 word"

definition FAILED :: "HRESULT \<Rightarrow> bool" where
  "FAILED hr = (sint hr < 0)"

definition SUCCEEDED :: "HRESULT \<Rightarrow> bool" where
  "SUCCEEDED hr = (0 \<le> sint hr)"

definition S_OK :: HRESULT where
  "S_OK = 0"

definition E_FAIL :: HRESULT where
  "E_FAIL = 0x80004005"

definition E_UNEXPECTED :: HRESULT where
  "E_UNEXPECTED = 0x8000FFFF"

definition COR_E_TIMEOUT :: HRESULT where
  "COR_E_TIMEOUT = 0x80131505"

definition COR_E_OPERATIONCANCELED :: HRESULT where
  "COR_E_OPERATIONCANCELED = 0x8013153B"

definition CORDBG_S_FUNC_EVAL_ABORTED :: HRESULT where
  "CORDBG_S_FUNC_EVAL_ABORTED = 0x00131319"

definition CORDBG_S_FUNC_EVAL_HAS_NO_RESULT :: HRESULT where
  "CORDBG_S_FUNC_EVAL_HAS_NO_RESULT = 0x00131316"

definition CORDBG_E_CANT_CALL_ON_THIS_THREAD :: HRESULT where
  "CORDBG_E_CANT_CALL_ON_THIS_THREAD = 0x80131C09"

section \<open>The debug engine\<close>

text \<open>
  Engine objects are handles. Every call into the engine (and the caller's setup callback,
  which configures the evaluation through the engine) is recorded in a trace together with
  the status it returned. The engine itself is a parameter: \<open>respond E n c\<close> is the status
  of call \<open>c\<close> when it is the \<open>n\<close>-th call made, so the same call may succeed at one
  time and fail at another; the \<open>_out\<close> fields are what a call stores through its out
  parameter.
\<close>

type_synonym ICorDebugThread = nat
type_synonym ICorDebugProcess = nat
type_synonym ICorDebugEval = nat
type_synonym ICorDebugValue = nat

datatype CorDebugThreadState = THREAD_RUN | THREAD_SUSPEND

datatype engine_call =
    Thread_GetProcess ICorDebugThread
  | Thread_GetID ICorDebugThread
  | Thread_CreateEval ICorDebugThread
  | Thread_SetDebugState ICorDebugThread CorDebugThreadState
  | Process_EnumerateThreads
  | ThreadEnum_Next
  | Process_Stop
  | Process_Continue
  | Process_QueryInterface_Process3
  | Process3_SetEnableCustomNotification bool
  | Eval_GetResult ICorDebugEval
  | Eval_Abort ICorDebugEval
  | Eval_QueryInterface_Eval2 ICorDebugEval
  | Eval2_RudeAbort ICorDebugEval
  | cbSetupEval ICorDebugEval

record engine =
  respond :: "nat \<Rightarrow> engine_call \<Rightarrow> HRESULT"
  GetID_out :: "ICorDebugThread \<Rightarrow> DWORD"
  GetProcess_out :: "ICorDebugThread \<Rightarrow> ICorDebugProcess option"
  EnumerateThreads_out :: "nat \<Rightarrow> ICorDebugThread list"
  CreateEval_out :: "nat \<Rightarrow> ICorDebugEval"
  GetResult_out :: "nat \<Rightarrow> ICorDebugEval \<Rightarrow> ICorDebugValue option"
  Status_init :: HRESULT
  NDEBUG :: bool

text \<open>
  \<open>Status_init\<close> is the value the member \<open>Status\<close> holds in a freshly allocated
  \<open>evalResultData_t\<close>. The structure is declared in the header \<open>evalwaiter.h\<close>, which is
  not among the sources, so its initialiser is a parameter.

  \<open>NDEBUG\<close> tells how the source is compiled: when the macro is defined, \<open>assert\<close>
  expands to nothing; otherwise a failed \<open>assert\<close> ends the program.
\<close>

section \<open>The state of the waiter\<close>

record evalResultData_t =
  iCorEval :: "ICorDebugValue option"
  Status :: HRESULT

text \<open>The shared state of a promise and its future.\<close>

datatype shared_state = Pending | Ready evalResultData_t | Broken_promise

record evalResult_t =
  threadId :: DWORD
  pEval :: ICorDebugEval
  promiseValue :: nat

text \<open>
  Besides the members of \<open>EvalWaiter\<close>, the state holds the shared states of the promises
  created so far, the trace of engine calls, and the two pieces of engine state the waiter
  drives: the debug state of each thread and whether the custom notification is enabled.
  A successful \<open>SetDebugState\<close> or \<open>SetEnableCustomNotification\<close> takes effect there.
\<close>

record EvalWaiter =
  m_evalResult :: "evalResult_t option"
  m_evalCanceled :: bool
  m_evalCrossThreadDependency :: bool
  shared :: "nat \<Rightarrow> shared_state"
  next_promise :: nat
  trace :: "(engine_call \<times> HRESULT) list"
  debug_state :: "ICorDebugThread \<Rightarrow> CorDebugThreadState"
  custom_notification :: bool

datatype crash = Assertion_failed | Null_dereference

definition call :: "engine \<Rightarrow> engine_call \<Rightarrow> EvalWaiter \<Rightarrow> HRESULT \<times> EvalWaiter" where
  "call E c s =
     (let hr = respond E (length (trace s)) c
      in (hr, s\<lparr>trace := trace s @ [(c, hr)]\<rparr>))"

text \<open>
  \<open>DWORD threadId = 0; pThread->GetID(&threadId);\<close> The local keeps its initial value when
  the call fails.
\<close>

definition GetID :: "engine \<Rightarrow> ICorDebugThread \<Rightarrow> EvalWaiter \<Rightarrow> HRESULT \<times> DWORD \<times> EvalWaiter" where
  "GetID E t s =
     (let (hr, s1) = call E (Thread_GetID t) s
      in (hr, (if SUCCEEDED hr then GetID_out E t else 0), s1))"

text \<open>
  \<open>m_evalResult.reset(nullptr)\<close> destroys the request and with it the promise; a promise
  destroyed before a value was set leaves a broken promise in the shared state.
\<close>

definition reset_evalResult :: "EvalWaiter \<Rightarrow> EvalWaiter" where
  "reset_evalResult s =
     (case m_evalResult s of
        None \<Rightarrow> s
      | Some r \<Rightarrow>
          s\<lparr>m_evalResult := None,
            shared := (shared s)(promiseValue r :=
              (case shared s (promiseValue r) of Pending \<Rightarrow> Broken_promise | st \<Rightarrow> st))\<rparr>)"

section \<open>The operations of \<open>EvalWaiter\<close>\<close>

definition NotifyEvalComplete ::
  "engine \<Rightarrow> ICorDebugThread option \<Rightarrow> ICorDebugEval option \<Rightarrow> EvalWaiter \<Rightarrow> EvalWaiter" where
  "NotifyEvalComplete E pThread pEval_arg s =
     (case pThread of
        None \<Rightarrow> reset_evalResult s
      | Some t \<Rightarrow>
          let (hrI, tid, s1) = GetID E t s;
              (ppEvalResult, s2) =
                (case pEval_arg of
                   None \<Rightarrow> (\<lparr>iCorEval = None, Status = Status_init E\<rparr>, s1)
                 | Some e \<Rightarrow>
                     let n = length (trace s1);
                         (hr, s') = call E (Eval_GetResult e) s1
                     in (\<lparr>iCorEval = GetResult_out E n e, Status = hr\<rparr>, s'))
          in (case m_evalResult s2 of
                None \<Rightarrow> s2
              | Some r \<Rightarrow>
                  if threadId r \<noteq> tid then s2
                  else reset_evalResult
                         (s2\<lparr>shared := (shared s2)(promiseValue r := Ready ppEvalResult)\<rparr>)))"

definition IsEvalRunning :: "EvalWaiter \<Rightarrow> bool" where
  "IsEvalRunning s = (m_evalResult s \<noteq> None)"

definition CancelEvalRunning :: "engine \<Rightarrow> EvalWaiter \<Rightarrow> EvalWaiter" where
  "CancelEvalRunning E s =
     (case m_evalResult s of
        None \<Rightarrow> s
      | Some r \<Rightarrow>
          let (hrA, s1) = call E (Eval_Abort (pEval r)) s in
          if SUCCEEDED hrA then s1\<lparr>m_evalCanceled := True\<rparr>
          else
            let (hrQ, s2) = call E (Eval_QueryInterface_Eval2 (pEval r)) s1 in
            if \<not> SUCCEEDED hrQ then s2
            else
              let (hrR, s3) = call E (Eval2_RudeAbort (pEval r)) s2 in
              if SUCCEEDED hrR then s3\<lparr>m_evalCanceled := True\<rparr> else s3)"

text \<open>
  \<open>RunEval\<close> returns the status it stored through \<open>Status\<close> and the future. The only
  guard of the slot is \<open>assert(!m_evalResult)\<close>: compiled in, it ends the program on an
  armed slot; compiled out, \<open>m_evalResult.reset(new evalResult_t{...})\<close> destroys the
  armed request, and with it its promise, and arms the new one.
\<close>

definition RunEval ::
  "engine \<Rightarrow> ICorDebugThread \<Rightarrow> ICorDebugEval \<Rightarrow> EvalWaiter \<Rightarrow> crash + (HRESULT \<times> nat \<times> EvalWaiter)" where
  "RunEval E pThread pEval_arg s =
     (let f = next_promise s;
          s0 = s\<lparr>shared := (shared s)(f := Pending), next_promise := Suc f\<rparr>;
          (hrI, tid, s1) = GetID E pThread s0
      in if m_evalResult s1 \<noteq> None \<and> \<not> NDEBUG E then Inl Assertion_failed
         else
           let s2 = (reset_evalResult s1)
                      \<lparr>m_evalResult := Some \<lparr>threadId = tid, pEval = pEval_arg, promiseValue = f\<rparr>\<rparr>;
               (hrS, s3) = call E (cbSetupEval pEval_arg) s2
           in if FAILED hrS then Inr (hrS, f, reset_evalResult s3)
              else
                let (hrC, s4) = call E Process_Continue s3
                in if FAILED hrC then Inr (hrC, f, reset_evalResult s4)
                   else Inr (hrC, f, s4))"

definition FindEvalForThread ::
  "engine \<Rightarrow> ICorDebugThread \<Rightarrow> EvalWaiter \<Rightarrow> ICorDebugEval option \<times> EvalWaiter" where
  "FindEvalForThread E pThread s =
     (let (hrI, tid, s1) = GetID E pThread s
      in case m_evalResult s1 of
           None \<Rightarrow> (None, s1)
         | Some r \<Rightarrow>
             if FAILED hrI then (None, s1)
             else (if threadId r = tid then Some (pEval r) else None, s1))"

definition ManagedCallbackCustomNotification ::
  "engine \<Rightarrow> ICorDebugThread \<Rightarrow> EvalWaiter \<Rightarrow> HRESULT \<times> EvalWaiter" where
  "ManagedCallbackCustomNotification E pThread s =
     (case FindEvalForThread E pThread s of
        (None, s1) \<Rightarrow> (S_OK, s1)
      | (Some e, s1) \<Rightarrow>
          let (hrA, s2) = call E (Eval_Abort e) s1 in
          if \<not> FAILED hrA then (S_OK, s2\<lparr>m_evalCrossThreadDependency := True\<rparr>)
          else
            let (hrQ, s3) = call E (Eval_QueryInterface_Eval2 e) s2 in
            if FAILED hrQ then (hrQ, s3)
            else
              let (hrR, s4) = call E (Eval2_RudeAbort e) s3 in
              if FAILED hrR then (hrR, s4)
              else (S_OK, s4\<lparr>m_evalCrossThreadDependency := True\<rparr>))"

definition SetEnableCustomNotification :: "engine \<Rightarrow> bool \<Rightarrow> EvalWaiter \<Rightarrow> HRESULT \<times> EvalWaiter" where
  "SetEnableCustomNotification E fEnable s =
     (let (hrQ, s1) = call E Process_QueryInterface_Process3 s in
      if FAILED hrQ then (hrQ, s1)
      else
        let (hr, s2) = call E (Process3_SetEnableCustomNotification fEnable) s1
        in (hr, if SUCCEEDED hr then s2\<lparr>custom_notification := fEnable\<rparr> else s2))"

subsection \<open>Suspending and resuming the other threads\<close>

definition SetDebugState :: "engine \<Rightarrow> ICorDebugThread \<Rightarrow> CorDebugThreadState \<Rightarrow> EvalWaiter \<Rightarrow> EvalWaiter" where
  "SetDebugState E t st s =
     (let (hr, s1) = call E (Thread_SetDebugState t st) s
      in if SUCCEEDED hr then s1\<lparr>debug_state := (debug_state s1)(t := st)\<rparr> else s1)"

text \<open>
  The loop of the lambda \<open>ChangeThreadsState\<close> over the threads the enumerator still
  holds: \<open>Next\<close> fetches one thread while it succeeds and a thread is left.
\<close>

fun ChangeThreadsState_loop ::
  "engine \<Rightarrow> DWORD \<Rightarrow> CorDebugThreadState \<Rightarrow> ICorDebugThread list \<Rightarrow> EvalWaiter \<Rightarrow> EvalWaiter" where
  "ChangeThreadsState_loop E evalThreadId st [] s = snd (call E ThreadEnum_Next s)"
| "ChangeThreadsState_loop E evalThreadId st (t # ts) s =
     (let (hrN, s1) = call E ThreadEnum_Next s in
      if \<not> SUCCEEDED hrN then s1
      else
        let (hrI, s2) = call E (Thread_GetID t) s1;
            s3 = (if SUCCEEDED hrI \<and> evalThreadId \<noteq> GetID_out E t
                  then SetDebugState E t st s2 else s2)
        in ChangeThreadsState_loop E evalThreadId st ts s3)"

text \<open>
  The result of \<open>EnumerateThreads\<close> is not checked; when it fails the enumerator is null
  and the first \<open>Next\<close> dereferences it.
\<close>

definition ChangeThreadsState ::
  "engine \<Rightarrow> DWORD \<Rightarrow> CorDebugThreadState \<Rightarrow> EvalWaiter \<Rightarrow> crash + EvalWaiter" where
  "ChangeThreadsState E evalThreadId st s =
     (let n = length (trace s);
          (hr, s1) = call E Process_EnumerateThreads s
      in if FAILED hr then Inl Null_dereference
         else Inr (ChangeThreadsState_loop E evalThreadId st (EnumerateThreads_out E n) s1))"

subsection \<open>What the other threads do while the caller waits\<close>

text \<open>
  While \<open>WaitEvalResult\<close> sleeps in \<open>wait_for\<close>, the engine's callback thread and the
  command thread may call into the waiter. Each of these calls runs under
  \<open>m_evalResultMutex\<close>, so a waiting window is a sequence of them.
\<close>

datatype event =
    Ev_NotifyEvalComplete "ICorDebugThread option" "ICorDebugEval option"
  | Ev_CancelEvalRunning
  | Ev_ManagedCallbackCustomNotification ICorDebugThread

fun run_event :: "engine \<Rightarrow> event \<Rightarrow> EvalWaiter \<Rightarrow> EvalWaiter" where
  "run_event E (Ev_NotifyEvalComplete pThread pEval_arg) s = NotifyEvalComplete E pThread pEval_arg s"
| "run_event E Ev_CancelEvalRunning s = CancelEvalRunning E s"
| "run_event E (Ev_ManagedCallbackCustomNotification pThread) s =
     snd (ManagedCallbackCustomNotification E pThread s)"

fun run_events :: "engine \<Rightarrow> event list \<Rightarrow> EvalWaiter \<Rightarrow> EvalWaiter" where
  "run_events E [] s = s"
| "run_events E (ev # evs) s = run_events E evs (run_event E ev s)"

datatype future_status = ready | timeout

text \<open>
  \<open>f.wait_for(5000 ms)\<close>: returns at once when the shared state is already set; otherwise
  the events of the window happen, and the wait times out when they leave it pending.
\<close>

definition wait_for :: "engine \<Rightarrow> nat \<Rightarrow> event list \<Rightarrow> EvalWaiter \<Rightarrow> future_status \<times> EvalWaiter" where
  "wait_for E f evs s =
     (case shared s f of
        Pending \<Rightarrow>
          (let s1 = run_events E evs s
           in ((case shared s1 f of Pending \<Rightarrow> timeout | _ \<Rightarrow> ready), s1))
      | _ \<Rightarrow> (ready, s))"

subsection \<open>\<open>WaitEvalResult\<close>\<close>

text \<open>The body of \<open>if (timeoutStatus == std::future_status::timeout)\<close> after the first wait.\<close>

definition abort_on_timeout ::
  "engine \<Rightarrow> DWORD \<Rightarrow> ICorDebugEval \<Rightarrow> EvalWaiter \<Rightarrow> crash + EvalWaiter" where
  "abort_on_timeout E evalThreadId e s =
     (let (hrP, s1) = call E Process_Stop s in
      case ChangeThreadsState E evalThreadId THREAD_RUN s1 of
        Inl c \<Rightarrow> Inl c
      | Inr s2 \<Rightarrow>
          let (hrA, s3) = call E (Eval_Abort e) s2;
              s4 = (if FAILED hrA then
                      (let (hrQ, s') = call E (Eval_QueryInterface_Eval2 e) s3 in
                       if SUCCEEDED hrQ then snd (call E (Eval2_RudeAbort e) s') else s')
                    else s3)
          in Inr (snd (call E Process_Continue s4)))"

text \<open>
  The second wait and the reading of the future. The caller's output slot is \<open>None\<close> for a
  null \<open>ppEvalResult\<close> and \<open>Some v\<close> for a slot holding \<open>v\<close>. \<open>f.get()\<close> on a broken
  promise throws \<open>std::future_error\<close>, which the lambda catches.
\<close>

definition await_result ::
  "engine \<Rightarrow> nat \<Rightarrow> ICorDebugValue option option \<Rightarrow> event list \<Rightarrow> EvalWaiter \<Rightarrow>
     HRESULT \<times> ICorDebugValue option option \<times> EvalWaiter" where
  "await_result E f ppEvalResult evs2 s =
     (let (st, s1) = wait_for E f evs2 s in
      case st of
        timeout \<Rightarrow>
          (let (hrP, s2) = call E Process_Stop s1
           in (E_UNEXPECTED, ppEvalResult, reset_evalResult s2))
      | ready \<Rightarrow>
          (case shared s1 f of
             Ready evalResult \<Rightarrow>
               if FAILED (Status evalResult) then (Status evalResult, ppEvalResult, s1)
               else (case ppEvalResult of
                       None \<Rightarrow> (S_OK, None, s1)
                     | Some old \<Rightarrow> (Status evalResult, Some (iCorEval evalResult), s1))
           | _ \<Rightarrow> (E_FAIL, ppEvalResult, s1)))"

text \<open>
  From the first wait to the reading of the future, with the flag \<open>evalTimeOut\<close> the
  block sets. \<open>evs1\<close> and \<open>evs2\<close> are the events of the two waiting windows.
\<close>

definition wait_with_timeout ::
  "engine \<Rightarrow> DWORD \<Rightarrow> ICorDebugEval \<Rightarrow> nat \<Rightarrow> ICorDebugValue option option \<Rightarrow>
     event list \<Rightarrow> event list \<Rightarrow> EvalWaiter \<Rightarrow>
     crash + (HRESULT \<times> bool \<times> ICorDebugValue option option \<times> EvalWaiter)" where
  "wait_with_timeout E evalThreadId e f ppEvalResult evs1 evs2 s =
     (let (st, s4) = wait_for E f evs1 s in
      (case st of
         timeout \<Rightarrow>
           (case abort_on_timeout E evalThreadId e s4 of
              Inl c \<Rightarrow> Inl c
            | Inr s5 \<Rightarrow>
                (let (ret, slot, s6) = await_result E f ppEvalResult evs2 s5
                 in Inr (ret, True, slot, s6)))
       | ready \<Rightarrow>
           (let (ret, slot, s6) = await_result E f ppEvalResult evs2 s4
            in Inr (ret, False, slot, s6))))"

text \<open>The lambda \<open>WaitResult\<close>; it also yields the flag \<open>evalTimeOut\<close>.\<close>

definition WaitResult ::
  "engine \<Rightarrow> ICorDebugThread \<Rightarrow> DWORD \<Rightarrow> ICorDebugValue option option \<Rightarrow> event list \<Rightarrow> event list \<Rightarrow>
     EvalWaiter \<Rightarrow> crash + (HRESULT \<times> bool \<times> ICorDebugValue option option \<times> EvalWaiter)" where
  "WaitResult E pThread evalThreadId ppEvalResult evs1 evs2 s =
     (case ChangeThreadsState E evalThreadId THREAD_SUSPEND s of
        Inl c \<Rightarrow> Inl c
      | Inr s1 \<Rightarrow>
          let n = length (trace s1);
              (hrC, s2) = call E (Thread_CreateEval pThread) s1
          in if FAILED hrC then Inr (hrC, False, ppEvalResult, s2)
             else
               (case RunEval E pThread (CreateEval_out E n) s2 of
                  Inl c \<Rightarrow> Inl c
                | Inr (hrS, f, s3) \<Rightarrow>
                    if FAILED hrS then Inr (hrS, False, ppEvalResult, s3)
                    else wait_with_timeout E evalThreadId (CreateEval_out E n) f
                           ppEvalResult evs1 evs2 s3))"

definition WaitEvalResult ::
  "engine \<Rightarrow> ICorDebugThread \<Rightarrow> ICorDebugValue option option \<Rightarrow> event list \<Rightarrow> event list \<Rightarrow>
     EvalWaiter \<Rightarrow> crash + (HRESULT \<times> ICorDebugValue option option \<times> EvalWaiter)" where
  "WaitEvalResult E pThread ppEvalResult evs1 evs2 s =
     (let (hrP, s1) = call E (Thread_GetProcess pThread) s in
      if FAILED hrP then Inr (hrP, ppEvalResult, s1)
      else if GetProcess_out E pThread = None then Inr (E_FAIL, ppEvalResult, s1)
      else
        let (hrI, s2) = call E (Thread_GetID pThread) s1 in
        if FAILED hrI then Inr (hrI, ppEvalResult, s2)
        else
          let evalThreadId = GetID_out E pThread;
              s3 = snd (SetEnableCustomNotification E True s2);
              s4 = s3\<lparr>m_evalCanceled := False, m_evalCrossThreadDependency := False\<rparr>
          in (case WaitResult E pThread evalThreadId ppEvalResult evs1 evs2 s4 of
               Inl c \<Rightarrow> Inl c
             | Inr (raw, evalTimeOut, slot, s5) \<Rightarrow>
                 let s6 = snd (SetEnableCustomNotification E False s5);
                     ret =
                       (if raw = CORDBG_S_FUNC_EVAL_ABORTED then
                          (if m_evalCrossThreadDependency s6 then CORDBG_E_CANT_CALL_ON_THIS_THREAD
                           else if m_evalCanceled s6 then COR_E_OPERATIONCANCELED
                           else COR_E_TIMEOUT)
                        else if evalTimeOut then
                          (if raw = E_UNEXPECTED then E_UNEXPECTED else COR_E_TIMEOUT)
                        else raw)
                 in (case ChangeThreadsState E evalThreadId THREAD_RUN s6 of
                       Inl c \<Rightarrow> Inl c
                     | Inr s7 \<Rightarrow> Inr (ret, slot, s7))))"

section \<open>Auxiliary notions for the properties\<close>

text \<open>
  The state in which \<open>WaitEvalResult\<close> calls the lambda \<open>WaitResult\<close>: the process and
  the thread id have been read, the notification has been requested and both flags reset.
\<close>

definition eval_entry :: "engine \<Rightarrow> ICorDebugThread \<Rightarrow> EvalWaiter \<Rightarrow> EvalWaiter" where
  "eval_entry E pThread s =
     (snd (SetEnableCustomNotification E True
        (snd (call E (Thread_GetID pThread) (snd (call E (Thread_GetProcess pThread) s))))))
     \<lparr>m_evalCanceled := False, m_evalCrossThreadDependency := False\<rparr>"

text \<open>What a call that may end the program gave back, when it returned.\<close>

definition returned_status :: "crash + (HRESULT \<times> 'a \<times> EvalWaiter) \<Rightarrow> HRESULT option" where
  "returned_status r = (case r of Inl c \<Rightarrow> None | Inr (hr, slot, s) \<Rightarrow> Some hr)"

definition returned_slot :: "crash + (HRESULT \<times> 'a \<times> EvalWaiter) \<Rightarrow> 'a option" where
  "returned_slot r = (case r of Inl c \<Rightarrow> None | Inr (hr, slot, s) \<Rightarrow> Some slot)"

definition returned_state :: "crash + (HRESULT \<times> 'a \<times> EvalWaiter) \<Rightarrow> EvalWaiter option" where
  "returned_state r = (case r of Inl c \<Rightarrow> None | Inr (hr, slot, s) \<Rightarrow> Some s)"

definition returned_debug_state ::
  "crash + (HRESULT \<times> 'a \<times> EvalWaiter) \<Rightarrow> ICorDebugThread \<Rightarrow> CorDebugThreadState option" where
  "returned_debug_state r t = (case r of Inl c \<Rightarrow> None | Inr (hr, slot, s) \<Rightarrow> Some (debug_state s t))"

definition returned_notification :: "crash + (HRESULT \<times> 'a \<times> EvalWaiter) \<Rightarrow> bool option" where
  "returned_notification r = (case r of Inl c \<Rightarrow> None | Inr (hr, slot, s) \<Rightarrow> Some (custom_notification s))"

definition returned_future :: "crash + (HRESULT \<times> 'a \<times> EvalWaiter) \<Rightarrow> nat \<Rightarrow> shared_state option" where
  "returned_future r f = (case r of Inl c \<Rightarrow> None | Inr (hr, slot, s) \<Rightarrow> Some (shared s f))"

text \<open>A request for thread id \<open>tid\<close> is armed and its future is still unresolved.\<close>

definition armed_for :: "DWORD \<Rightarrow> ICorDebugEval \<Rightarrow> nat \<Rightarrow> EvalWaiter \<Rightarrow> bool" where
  "armed_for tid e f s \<longleftrightarrow>
     m_evalResult s = Some \<lparr>threadId = tid, pEval = e, promiseValue = f\<rparr> \<and> shared s f = Pending"

text \<open>
  Events that cannot resolve the future of a request armed for \<open>tid\<close>: everything but a
  reset and a completion whose thread id is, or may be read as, \<open>tid\<close>.
\<close>

fun leaves_pending :: "engine \<Rightarrow> DWORD \<Rightarrow> event \<Rightarrow> bool" where
  "leaves_pending E tid (Ev_NotifyEvalComplete None pe) = False"
| "leaves_pending E tid (Ev_NotifyEvalComplete (Some t) pe) = (GetID_out E t \<noteq> tid \<and> tid \<noteq> 0)"
| "leaves_pending E tid Ev_CancelEvalRunning = True"
| "leaves_pending E tid (Ev_ManagedCallbackCustomNotification t) = True"

text \<open>
  The promise of an armed request has not been fulfilled yet, and it is one of the promises
  created so far.
\<close>

definition promise_pending :: "EvalWaiter \<Rightarrow> bool" where
  "promise_pending s \<longleftrightarrow>
     (\<forall>r. m_evalResult s = Some r \<longrightarrow>
        shared s (promiseValue r) = Pending \<and> promiseValue r < next_promise s)"


text \<open>The trace of \<open>s'\<close> continues the trace of \<open>s\<close>.\<close>

definition extends :: "EvalWaiter \<Rightarrow> EvalWaiter \<Rightarrow> bool" where
  "extends s s' \<longleftrightarrow> (\<exists>ext. trace s' = trace s @ ext)"

text \<open>The engine lets \<open>WaitEvalResult\<close> on \<open>pThread\<close> get as far as the first wait.\<close>

definition starts_eval :: "engine \<Rightarrow> ICorDebugThread \<Rightarrow> bool" where
  "starts_eval E pThread \<longleftrightarrow>
     (\<forall>n. \<not> FAILED (respond E n (Thread_GetProcess pThread)))
     \<and> GetProcess_out E pThread \<noteq> None
     \<and> (\<forall>n. \<not> FAILED (respond E n (Thread_GetID pThread)))
     \<and> (\<forall>n. \<not> FAILED (respond E n Process_EnumerateThreads))
     \<and> (\<forall>n. \<not> FAILED (respond E n (Thread_CreateEval pThread)))
     \<and> (\<forall>n e. \<not> FAILED (respond E n (cbSetupEval e)))
     \<and> (\<forall>n. \<not> FAILED (respond E n Process_Continue))"

text \<open>
  The calls that mark the start of an evaluation: creating the handle, the setup
  callback, resuming the process.
\<close>

fun milestone :: "engine_call \<Rightarrow> bool" where
  "milestone (Thread_CreateEval t) = True"
| "milestone (cbSetupEval e) = True"
| "milestone Process_Continue = True"
| "milestone c = False"

definition milestones :: "(engine_call \<times> HRESULT) list \<Rightarrow> (engine_call \<times> HRESULT) list" where
  "milestones tr = filter (\<lambda>x. milestone (fst x)) tr"

subsection \<open>Example engines and states\<close>

definition engine_ok :: engine where
  "engine_ok =
     \<lparr>respond = (\<lambda>n c. S_OK), GetID_out = (\<lambda>t. of_nat t), GetProcess_out = (\<lambda>t. Some 0),
      EnumerateThreads_out = (\<lambda>n. [1, 2, 3]), CreateEval_out = (\<lambda>n. 7),
      GetResult_out = (\<lambda>n e. Some 42), Status_init = E_FAIL, NDEBUG = False\<rparr>"

definition engine_ndebug :: engine where
  "engine_ndebug = engine_ok\<lparr>NDEBUG := True\<rparr>"

definition engine_unexpected :: engine where
  "engine_unexpected = engine_ok\<lparr>respond :=
     (\<lambda>n c. case c of Eval_GetResult e \<Rightarrow> E_UNEXPECTED | _ \<Rightarrow> S_OK)\<rparr>"

definition engine_aborted :: engine where
  "engine_aborted = engine_ok\<lparr>respond :=
     (\<lambda>n c. case c of Eval_GetResult e \<Rightarrow> CORDBG_S_FUNC_EVAL_ABORTED | _ \<Rightarrow> S_OK)\<rparr>"

definition engine_abort_fails :: engine where
  "engine_abort_fails = engine_ok\<lparr>respond :=
     (\<lambda>n c. case c of Eval_Abort e \<Rightarrow> E_FAIL | Eval2_RudeAbort e \<Rightarrow> E_UNEXPECTED | _ \<Rightarrow> S_OK)\<rparr>"

definition engine_no_eval :: engine where
  "engine_no_eval = engine_ok\<lparr>respond :=
     (\<lambda>n c. case c of Thread_CreateEval t \<Rightarrow> E_FAIL | _ \<Rightarrow> S_OK)\<rparr>"

definition engine_setup_fails :: engine where
  "engine_setup_fails = engine_ok\<lparr>respond :=
     (\<lambda>n c. case c of cbSetupEval e \<Rightarrow> E_FAIL | _ \<Rightarrow> S_OK)\<rparr>"

definition engine_continue_fails :: engine where
  "engine_continue_fails = engine_ok\<lparr>respond :=
     (\<lambda>n c. case c of Process_Continue \<Rightarrow> E_FAIL | _ \<Rightarrow> S_OK)\<rparr>"

definition engine_no_result :: engine where
  "engine_no_result = engine_ok\<lparr>respond :=
     (\<lambda>n c. case c of Eval_GetResult e \<Rightarrow> CORDBG_S_FUNC_EVAL_HAS_NO_RESULT | _ \<Rightarrow> S_OK)\<rparr>"

definition idle :: EvalWaiter where
  "idle =
     \<lparr>m_evalResult = None, m_evalCanceled = False, m_evalCrossThreadDependency = False,
      shared = (\<lambda>p. Broken_promise), next_promise = 0, trace = [],
      debug_state = (\<lambda>t. THREAD_RUN), custom_notification = False\<rparr>"

text \<open>An idle waiter whose process has its threads suspended and the notification enabled.\<close>

definition parked :: EvalWaiter where
  "parked = idle\<lparr>debug_state := (\<lambda>t. THREAD_SUSPEND), custom_notification := True\<rparr>"

definition request_1 :: evalResult_t where
  "request_1 = \<lparr>threadId = 1, pEval = 7, promiseValue = 0\<rparr>"

definition armed :: EvalWaiter where
  "armed = idle\<lparr>m_evalResult := Some request_1,
     shared := (\<lambda>p. Broken_promise)(0 := Pending), next_promise := 1\<rparr>"

section \<open>Basic facts\<close>

lemmas model_defs =
  WaitEvalResult_def WaitResult_def wait_with_timeout_def await_result_def abort_on_timeout_def
  wait_for_def RunEval_def ChangeThreadsState_def SetDebugState_def
  SetEnableCustomNotification_def NotifyEvalComplete_def CancelEvalRunning_def
  ManagedCallbackCustomNotification_def FindEvalForThread_def reset_evalResult_def GetID_def
  call_def eval_entry_def returned_status_def returned_slot_def returned_state_def
  returned_debug_state_def returned_notification_def returned_future_def

lemmas example_defs =
  engine_ok_def engine_aborted_def engine_abort_fails_def engine_no_eval_def
  engine_setup_fails_def engine_continue_fails_def engine_no_result_def engine_ndebug_def
  engine_unexpected_def idle_def parked_def
  armed_def request_1_def

lemma SUCCEEDED_iff [simp]: "SUCCEEDED hr = (\<not> FAILED hr)"
  by (simp add: SUCCEEDED_def FAILED_def not_less)

lemma status_codes [simp]:
  "\<not> FAILED S_OK" "FAILED E_FAIL" "FAILED E_UNEXPECTED" "FAILED COR_E_TIMEOUT"
  "FAILED COR_E_OPERATIONCANCELED" "FAILED CORDBG_E_CANT_CALL_ON_THIS_THREAD"
  "\<not> FAILED CORDBG_S_FUNC_EVAL_ABORTED" "\<not> FAILED CORDBG_S_FUNC_EVAL_HAS_NO_RESULT"
  by (simp_all add: FAILED_def S_OK_def E_FAIL_def E_UNEXPECTED_def COR_E_TIMEOUT_def
        COR_E_OPERATIONCANCELED_def CORDBG_E_CANT_CALL_ON_THIS_THREAD_def
        CORDBG_S_FUNC_EVAL_ABORTED_def CORDBG_S_FUNC_EVAL_HAS_NO_RESULT_def)

lemma status_codes_distinct [simp]:
  "COR_E_OPERATIONCANCELED \<noteq> COR_E_TIMEOUT"
  "COR_E_OPERATIONCANCELED \<noteq> CORDBG_E_CANT_CALL_ON_THIS_THREAD"
  "COR_E_OPERATIONCANCELED \<noteq> E_UNEXPECTED"
  "COR_E_TIMEOUT \<noteq> CORDBG_E_CANT_CALL_ON_THIS_THREAD"
  "COR_E_TIMEOUT \<noteq> E_UNEXPECTED"
  "CORDBG_E_CANT_CALL_ON_THIS_THREAD \<noteq> E_UNEXPECTED"
  "S_OK \<noteq> CORDBG_S_FUNC_EVAL_HAS_NO_RESULT"
  "S_OK \<noteq> CORDBG_S_FUNC_EVAL_ABORTED"
  "S_OK \<noteq> E_UNEXPECTED"
  "S_OK \<noteq> E_FAIL"
  "S_OK \<noteq> COR_E_TIMEOUT"
  "CORDBG_S_FUNC_EVAL_HAS_NO_RESULT \<noteq> CORDBG_S_FUNC_EVAL_ABORTED"
  "E_UNEXPECTED \<noteq> CORDBG_S_FUNC_EVAL_ABORTED"
  "E_FAIL \<noteq> CORDBG_S_FUNC_EVAL_ABORTED"
  "E_FAIL \<noteq> E_UNEXPECTED"
  by (simp_all add: S_OK_def E_FAIL_def E_UNEXPECTED_def COR_E_TIMEOUT_def
        COR_E_OPERATIONCANCELED_def CORDBG_E_CANT_CALL_ON_THIS_THREAD_def
        CORDBG_S_FUNC_EVAL_ABORTED_def CORDBG_S_FUNC_EVAL_HAS_NO_RESULT_def)

lemmas status_codes_distinct_sym [simp] = status_codes_distinct [symmetric]

lemma FAILED_not_ABORTED [simp]: "FAILED hr \<Longrightarrow> hr \<noteq> CORDBG_S_FUNC_EVAL_ABORTED"
  by auto

lemma call_simps [simp]:
  "fst (call E c s) = respond E (length (trace s)) c"
  "trace (snd (call E c s)) = trace s @ [(c, respond E (length (trace s)) c)]"
  "m_evalResult (snd (call E c s)) = m_evalResult s"
  "m_evalCanceled (snd (call E c s)) = m_evalCanceled s"
  "m_evalCrossThreadDependency (snd (call E c s)) = m_evalCrossThreadDependency s"
  "shared (snd (call E c s)) = shared s"
  "next_promise (snd (call E c s)) = next_promise s"
  "debug_state (snd (call E c s)) = debug_state s"
  "custom_notification (snd (call E c s)) = custom_notification s"
  by (simp_all add: call_def Let_def)

lemma GetID_simps [simp]:
  "fst (GetID E t s) = respond E (length (trace s)) (Thread_GetID t)"
  "fst (snd (GetID E t s)) =
     (if FAILED (respond E (length (trace s)) (Thread_GetID t)) then 0 else GetID_out E t)"
  "snd (snd (GetID E t s)) = snd (call E (Thread_GetID t) s)"
  by (simp_all add: GetID_def Let_def split_def)

lemma reset_evalResult_simps [simp]:
  "m_evalResult (reset_evalResult s) = None"
  "m_evalCanceled (reset_evalResult s) = m_evalCanceled s"
  "m_evalCrossThreadDependency (reset_evalResult s) = m_evalCrossThreadDependency s"
  "next_promise (reset_evalResult s) = next_promise s"
  "trace (reset_evalResult s) = trace s"
  "debug_state (reset_evalResult s) = debug_state s"
  "custom_notification (reset_evalResult s) = custom_notification s"
  by (simp_all add: reset_evalResult_def split: option.splits)

lemma reset_evalResult_None [simp]: "m_evalResult s = None \<Longrightarrow> reset_evalResult s = s"
  by (simp add: reset_evalResult_def)

lemma shared_reset_evalResult:
  "shared (reset_evalResult s) p =
     (case m_evalResult s of
        None \<Rightarrow> shared s p
      | Some r \<Rightarrow> if p = promiseValue r \<and> shared s p = Pending then Broken_promise else shared s p)"
  by (simp add: reset_evalResult_def split: option.splits shared_state.splits)

lemma SetDebugState_simps [simp]:
  "m_evalResult (SetDebugState E t st s) = m_evalResult s"
  "m_evalCanceled (SetDebugState E t st s) = m_evalCanceled s"
  "m_evalCrossThreadDependency (SetDebugState E t st s) = m_evalCrossThreadDependency s"
  "shared (SetDebugState E t st s) = shared s"
  "next_promise (SetDebugState E t st s) = next_promise s"
  "custom_notification (SetDebugState E t st s) = custom_notification s"
  by (simp_all add: SetDebugState_def Let_def split_def)

lemma ChangeThreadsState_loop_frame [simp]:
  "m_evalResult (ChangeThreadsState_loop E tid st ts s) = m_evalResult s"
  "m_evalCanceled (ChangeThreadsState_loop E tid st ts s) = m_evalCanceled s"
  "m_evalCrossThreadDependency (ChangeThreadsState_loop E tid st ts s) = m_evalCrossThreadDependency s"
  "shared (ChangeThreadsState_loop E tid st ts s) = shared s"
  "next_promise (ChangeThreadsState_loop E tid st ts s) = next_promise s"
  "custom_notification (ChangeThreadsState_loop E tid st ts s) = custom_notification s"
  by (induction ts arbitrary: s; simp add: Let_def split_def)+

lemma ChangeThreadsState_frame:
  assumes "ChangeThreadsState E tid st s = Inr s'"
  shows "m_evalResult s' = m_evalResult s" "m_evalCanceled s' = m_evalCanceled s"
    "m_evalCrossThreadDependency s' = m_evalCrossThreadDependency s" "shared s' = shared s"
    "next_promise s' = next_promise s" "custom_notification s' = custom_notification s"
  using assms by (auto simp: ChangeThreadsState_def Let_def split_def split: if_splits)

lemma SetEnableCustomNotification_frame [simp]:
  "m_evalResult (snd (SetEnableCustomNotification E b s)) = m_evalResult s"
  "m_evalCanceled (snd (SetEnableCustomNotification E b s)) = m_evalCanceled s"
  "m_evalCrossThreadDependency (snd (SetEnableCustomNotification E b s)) = m_evalCrossThreadDependency s"
  "shared (snd (SetEnableCustomNotification E b s)) = shared s"
  "next_promise (snd (SetEnableCustomNotification E b s)) = next_promise s"
  "debug_state (snd (SetEnableCustomNotification E b s)) = debug_state s"
  by (simp_all add: SetEnableCustomNotification_def Let_def split_def)

lemma eval_entry_simps [simp]:
  "m_evalResult (eval_entry E pThread s) = m_evalResult s"
  "m_evalCanceled (eval_entry E pThread s) = False"
  "m_evalCrossThreadDependency (eval_entry E pThread s) = False"
  "shared (eval_entry E pThread s) = shared s"
  "next_promise (eval_entry E pThread s) = next_promise s"
  "debug_state (eval_entry E pThread s) = debug_state s"
  by (simp_all add: eval_entry_def)

text \<open>Once the process and the thread id are known, \<open>WaitEvalResult\<close> is the lambda plus the cleanup.\<close>

lemma WaitEvalResult_reached:
  assumes "\<not> FAILED (respond E (length (trace s)) (Thread_GetProcess pThread))"
    and "GetProcess_out E pThread \<noteq> None"
    and "\<not> FAILED (respond E (Suc (length (trace s))) (Thread_GetID pThread))"
  shows "WaitEvalResult E pThread slot evs1 evs2 s =
     (case WaitResult E pThread (GetID_out E pThread) slot evs1 evs2 (eval_entry E pThread s) of
        Inl c \<Rightarrow> Inl c
      | Inr (raw, evalTimeOut, slot', s5) \<Rightarrow>
          (case ChangeThreadsState E (GetID_out E pThread) THREAD_RUN
                  (snd (SetEnableCustomNotification E False s5)) of
             Inl c \<Rightarrow> Inl c
           | Inr s7 \<Rightarrow>
               Inr (if raw = CORDBG_S_FUNC_EVAL_ABORTED then
                      (if m_evalCrossThreadDependency s5 then CORDBG_E_CANT_CALL_ON_THIS_THREAD
                       else if m_evalCanceled s5 then COR_E_OPERATIONCANCELED
                       else COR_E_TIMEOUT)
                    else if evalTimeOut then
                      (if raw = E_UNEXPECTED then E_UNEXPECTED else COR_E_TIMEOUT)
                    else raw, slot', s7)))"
proof -
  from assms(2) obtain y where y: "GetProcess_out E pThread = Some y"
    by auto
  show ?thesis
    using assms(1,3)
    by (simp add: WaitEvalResult_def eval_entry_def y Let_def split_def split: sum.splits)
qed



lemma WaitEvalResult_final:
  assumes "\<not> FAILED (respond E (length (trace s)) (Thread_GetProcess pThread))"
    and "GetProcess_out E pThread \<noteq> None"
    and "\<not> FAILED (respond E (Suc (length (trace s))) (Thread_GetID pThread))"
    and "WaitResult E pThread (GetID_out E pThread) slot evs1 evs2 (eval_entry E pThread s)
           = Inr (raw, evalTimeOut, slot', s5)"
    and "WaitEvalResult E pThread slot evs1 evs2 s = Inr (ret, slot'', s')"
  shows "ret = (if raw = CORDBG_S_FUNC_EVAL_ABORTED then
                  (if m_evalCrossThreadDependency s5 then CORDBG_E_CANT_CALL_ON_THIS_THREAD
                   else if m_evalCanceled s5 then COR_E_OPERATIONCANCELED
                   else COR_E_TIMEOUT)
                else if evalTimeOut then
                  (if raw = E_UNEXPECTED then E_UNEXPECTED else COR_E_TIMEOUT)
                else raw)"
    and "slot'' = slot'"
    and "m_evalCrossThreadDependency s' = m_evalCrossThreadDependency s5"
    and "m_evalCanceled s' = m_evalCanceled s5"
    and "m_evalResult s' = m_evalResult s5"
    and "shared s' = shared s5"
    and "ChangeThreadsState E (GetID_out E pThread) THREAD_RUN
           (snd (SetEnableCustomNotification E False s5)) = Inr s'"
proof -
  note unf = WaitEvalResult_reached [OF assms(1-3), of slot evs1 evs2]
  from assms(5) [unfolded unf assms(4)]
  obtain s7 where s7: "ChangeThreadsState E (GetID_out E pThread) THREAD_RUN
                  (snd (SetEnableCustomNotification E False s5)) = Inr s7"
    by (cases "ChangeThreadsState E (GetID_out E pThread) THREAD_RUN
                  (snd (SetEnableCustomNotification E False s5))") auto
  from assms(5) [unfolded unf assms(4)] s7
  have eq: "s' = s7" "slot'' = slot'"
    and ret: "ret = (if raw = CORDBG_S_FUNC_EVAL_ABORTED then
                  (if m_evalCrossThreadDependency s5 then CORDBG_E_CANT_CALL_ON_THIS_THREAD
                   else if m_evalCanceled s5 then COR_E_OPERATIONCANCELED
                   else COR_E_TIMEOUT)
                else if evalTimeOut then
                  (if raw = E_UNEXPECTED then E_UNEXPECTED else COR_E_TIMEOUT)
                else raw)"
    by simp_all
  show "ret = (if raw = CORDBG_S_FUNC_EVAL_ABORTED then
                  (if m_evalCrossThreadDependency s5 then CORDBG_E_CANT_CALL_ON_THIS_THREAD
                   else if m_evalCanceled s5 then COR_E_OPERATIONCANCELED
                   else COR_E_TIMEOUT)
                else if evalTimeOut then
                  (if raw = E_UNEXPECTED then E_UNEXPECTED else COR_E_TIMEOUT)
                else raw)"
    by (rule ret)
  show "slot'' = slot'" by (rule eq)
  from ChangeThreadsState_frame [OF s7] eq
  show "m_evalCrossThreadDependency s' = m_evalCrossThreadDependency s5"
    and "m_evalCanceled s' = m_evalCanceled s5"
    and "m_evalResult s' = m_evalResult s5"
    and "shared s' = shared s5"
    by simp_all
  from s7 eq show "ChangeThreadsState E (GetID_out E pThread) THREAD_RUN
           (snd (SetEnableCustomNotification E False s5)) = Inr s'"
    by simp
qed

section \<open>The armed promise is unfulfilled\<close>

text \<open>
  \<open>std::promise::set_value\<close> throws when the shared state already holds a value. The model
  of \<open>NotifyEvalComplete\<close> stores the value without that check; this is sound because
  every operation keeps the promise of an armed request pending, so \<open>set_value\<close> is only
  reached on a pending one.
\<close>

lemma promise_pending_frame:
  "m_evalResult s' = m_evalResult s \<Longrightarrow> shared s' = shared s \<Longrightarrow> next_promise s' = next_promise s
     \<Longrightarrow> promise_pending s' = promise_pending s"
  by (simp add: promise_pending_def)

lemma promise_pending_idle: "m_evalResult s = None \<Longrightarrow> promise_pending s"
  by (simp add: promise_pending_def)

lemma promise_pending_run_event:
  "promise_pending s \<Longrightarrow> promise_pending (run_event E ev s)"
  by (cases ev)
     (auto simp: promise_pending_def NotifyEvalComplete_def CancelEvalRunning_def
        ManagedCallbackCustomNotification_def FindEvalForThread_def Let_def split_def
        split: option.splits if_splits)

lemma promise_pending_run_events:
  "promise_pending s \<Longrightarrow> promise_pending (run_events E evs s)"
  by (induction evs arbitrary: s) (simp_all add: promise_pending_run_event)

lemma promise_pending_RunEval:
  assumes "RunEval E pThread e s = Inr (hr, f, s')" and "promise_pending s"
  shows "promise_pending s'"
proof -
  define s1 where "s1 = snd (call E (Thread_GetID pThread)
      (s\<lparr>shared := (shared s)(next_promise s := Pending), next_promise := Suc (next_promise s)\<rparr>))"
  define r' where "r' = \<lparr>threadId = fst (snd (GetID E pThread
      (s\<lparr>shared := (shared s)(next_promise s := Pending), next_promise := Suc (next_promise s)\<rparr>))),
      pEval = e, promiseValue = next_promise s\<rparr>"
  define s2 where "s2 = (reset_evalResult s1)\<lparr>m_evalResult := Some r'\<rparr>"
  from assms(2) have "shared (reset_evalResult s1) (next_promise s) = Pending"
    by (auto simp: shared_reset_evalResult s1_def promise_pending_def split: option.splits)
  then have p2: "promise_pending s2"
    by (simp add: s2_def r'_def s1_def promise_pending_def)
  have cases: "s' = reset_evalResult (snd (call E (cbSetupEval e) s2))
      \<or> s' = reset_evalResult (snd (call E Process_Continue (snd (call E (cbSetupEval e) s2))))
      \<or> s' = snd (call E Process_Continue (snd (call E (cbSetupEval e) s2)))"
    using assms(1)
    by (auto simp: RunEval_def Let_def split_def s2_def r'_def s1_def split: if_splits)
  with p2 show ?thesis
    by (auto simp: promise_pending_def)
qed

lemma promise_pending_wait_for:
  "promise_pending s \<Longrightarrow> promise_pending (snd (wait_for E f evs s))"
  by (simp add: wait_for_def promise_pending_run_events Let_def split: shared_state.splits)

lemma promise_pending_await_result:
  assumes "promise_pending s"
  shows "promise_pending (snd (snd (await_result E f slot evs s)))"
proof (cases "fst (wait_for E f evs s)")
  case ready
  with promise_pending_wait_for [OF assms, of E f evs] show ?thesis
    by (simp add: await_result_def Let_def split_def split: shared_state.splits option.splits)
next
  case timeout
  then show ?thesis
    by (simp add: await_result_def Let_def split_def promise_pending_idle)
qed

lemma abort_on_timeout_frame:
  assumes "abort_on_timeout E tid e s = Inr s'"
  shows "m_evalResult s' = m_evalResult s" "shared s' = shared s" "next_promise s' = next_promise s"
proof -
  from assms obtain s2
    where s2: "ChangeThreadsState E tid THREAD_RUN (snd (call E Process_Stop s)) = Inr s2"
    by (auto simp: abort_on_timeout_def Let_def split_def split: sum.splits)
  from ChangeThreadsState_frame [OF s2]
  have "m_evalResult s2 = m_evalResult s" "shared s2 = shared s" "next_promise s2 = next_promise s"
    by simp_all
  moreover from assms s2 have "m_evalResult s' = m_evalResult s2" "shared s' = shared s2"
    "next_promise s' = next_promise s2"
    by (auto simp: abort_on_timeout_def Let_def split_def)
  ultimately show "m_evalResult s' = m_evalResult s" "shared s' = shared s"
    "next_promise s' = next_promise s"
    by simp_all
qed

lemma promise_pending_abort_on_timeout:
  assumes "abort_on_timeout E tid e s = Inr s'" and "promise_pending s"
  shows "promise_pending s'"
  using promise_pending_frame [OF abort_on_timeout_frame [OF assms(1)]] assms(2) by simp

lemma promise_pending_wait_with_timeout:
  assumes "wait_with_timeout E tid e f slot evs1 evs2 s = Inr (raw, tmo, slot', s')"
    and "promise_pending s"
  shows "promise_pending s'"
proof (cases "fst (wait_for E f evs1 s)")
  case ready
  with assms(1) have "s' = snd (snd (await_result E f slot evs2 (snd (wait_for E f evs1 s))))"
    by (auto simp: wait_with_timeout_def Let_def split_def)
  with promise_pending_await_result [OF promise_pending_wait_for [OF assms(2)]]
  show ?thesis by simp
next
  case timeout
  with assms(1) obtain s5 where s5: "abort_on_timeout E tid e (snd (wait_for E f evs1 s)) = Inr s5"
    and s': "s' = snd (snd (await_result E f slot evs2 s5))"
    by (auto simp: wait_with_timeout_def Let_def split_def split: sum.splits)
  from promise_pending_await_result
    [OF promise_pending_abort_on_timeout [OF s5 promise_pending_wait_for [OF assms(2)]]] s'
  show ?thesis by simp
qed

lemma promise_pending_WaitResult:
  assumes "WaitResult E pThread tid slot evs1 evs2 s = Inr (raw, tmo, slot', s')"
    and "promise_pending s"
  shows "promise_pending s'"
proof -
  from assms(1) obtain s1 where s1: "ChangeThreadsState E tid THREAD_SUSPEND s = Inr s1"
    by (auto simp: WaitResult_def split: sum.splits)
  define s2 where "s2 = snd (call E (Thread_CreateEval pThread) s1)"
  from ChangeThreadsState_frame [OF s1] assms(2) have p2: "promise_pending s2"
    by (simp add: promise_pending_def s2_def)
  show ?thesis
  proof (cases "FAILED (respond E (length (trace s1)) (Thread_CreateEval pThread))")
    case True
    with assms(1) s1 have "s' = s2"
      by (simp add: WaitResult_def Let_def split_def s2_def)
    with p2 show ?thesis by simp
  next
    case False
    with assms(1) s1 obtain hr f s3
      where r: "RunEval E pThread (CreateEval_out E (length (trace s1))) s2 = Inr (hr, f, s3)"
      by (auto simp: WaitResult_def Let_def split_def s2_def split: sum.splits)
    note p3 = promise_pending_RunEval [OF r p2]
    show ?thesis
    proof (cases "FAILED hr")
      case True
      with assms(1) s1 r False have "s' = s3"
        by (simp add: WaitResult_def Let_def split_def s2_def)
      with p3 show ?thesis by simp
    next
      case nf: False
      with assms(1) s1 r False
      have "wait_with_timeout E tid (CreateEval_out E (length (trace s1))) f slot evs1 evs2 s3
          = Inr (raw, tmo, slot', s')"
        by (simp add: WaitResult_def Let_def split_def s2_def)
      from promise_pending_wait_with_timeout [OF this p3] show ?thesis .
    qed
  qed
qed

lemma promise_pending_WaitEvalResult:
  assumes "WaitEvalResult E pThread slot evs1 evs2 s = Inr (ret, slot', s')"
    and "promise_pending s"
  shows "promise_pending s'"
proof (cases "\<not> FAILED (respond E (length (trace s)) (Thread_GetProcess pThread))
      \<and> GetProcess_out E pThread \<noteq> None
      \<and> \<not> FAILED (respond E (Suc (length (trace s))) (Thread_GetID pThread))")
  case False
  with assms show ?thesis
    by (auto simp: WaitEvalResult_def promise_pending_def Let_def split_def split: if_splits)
next
  case True
  then have t: "\<not> FAILED (respond E (length (trace s)) (Thread_GetProcess pThread))"
    "GetProcess_out E pThread \<noteq> None"
    "\<not> FAILED (respond E (Suc (length (trace s))) (Thread_GetID pThread))"
    by simp_all
  from assms(1) WaitEvalResult_reached [OF t, of slot evs1 evs2]
  obtain wres where "WaitResult E pThread (GetID_out E pThread) slot evs1 evs2
      (eval_entry E pThread s) = Inr wres"
    by (cases "WaitResult E pThread (GetID_out E pThread) slot evs1 evs2
      (eval_entry E pThread s)") auto
  then obtain raw tmo slot'' s5 where w: "WaitResult E pThread (GetID_out E pThread) slot evs1 evs2
      (eval_entry E pThread s) = Inr (raw, tmo, slot'', s5)"
    by (cases wres) auto
  from assms(2) have "promise_pending (eval_entry E pThread s)"
    by (simp add: promise_pending_def)
  note p5 = promise_pending_WaitResult [OF w this]
  from ChangeThreadsState_frame [OF WaitEvalResult_final(7) [OF t w assms(1)]] p5
  show ?thesis
    by (simp add: promise_pending_def)
qed

section \<open>An idle waiter stays idle\<close>









section \<open>The completion hook\<close>

text \<open>
  Claim C6. \<open>NotifyEvalComplete\<close> with a null thread clears the slot and fulfils no promise
  (a pending future is left broken, and no engine call is made). With a thread whose id
  differs from the armed request's owner, or with no request armed, the slot, the futures
  and the flags stay as they were, so an armed request stays armed and unresolved. With the
  owner's thread id the promise is fulfilled and the slot cleared. A completion that comes
  after the request was abandoned finds the slot empty and is dropped.
\<close>

theorem NotifyEvalComplete_dispatch:
  "(m_evalResult (NotifyEvalComplete E None pe s) = None
      \<and> trace (NotifyEvalComplete E None pe s) = trace s
      \<and> (\<forall>p d. shared (NotifyEvalComplete E None pe s) p = Ready d \<longrightarrow> shared s p = Ready d)
      \<and> (\<forall>r. m_evalResult s = Some r \<and> shared s (promiseValue r) = Pending
             \<longrightarrow> shared (NotifyEvalComplete E None pe s) (promiseValue r) = Broken_promise))
   \<and> ((m_evalResult s = None
        \<or> (\<exists>r. m_evalResult s = Some r \<and> threadId r \<noteq> fst (snd (GetID E t s))))
       \<longrightarrow> m_evalResult (NotifyEvalComplete E (Some t) pe s) = m_evalResult s
           \<and> shared (NotifyEvalComplete E (Some t) pe s) = shared s
           \<and> m_evalCanceled (NotifyEvalComplete E (Some t) pe s) = m_evalCanceled s
           \<and> m_evalCrossThreadDependency (NotifyEvalComplete E (Some t) pe s)
                = m_evalCrossThreadDependency s)
   \<and> (\<forall>r. m_evalResult s = Some r \<and> threadId r = fst (snd (GetID E t s))
          \<longrightarrow> m_evalResult (NotifyEvalComplete E (Some t) pe s) = None
              \<and> (\<exists>d. shared (NotifyEvalComplete E (Some t) pe s) (promiseValue r) = Ready d))"
  by (auto simp: NotifyEvalComplete_def Let_def split_def shared_reset_evalResult
           split: option.splits shared_state.splits if_splits)

text \<open>
  On a request armed for thread id 1: a reset breaks the promise, a completion for thread
  id 2 changes nothing, a completion for thread id 1 delivers the engine's result; on an
  idle waiter a completion is dropped.
\<close>

theorem NotifyEvalComplete_dispatch_witness:
  "m_evalResult armed = Some request_1
   \<and> shared armed (promiseValue request_1) = Pending
   \<and> shared (NotifyEvalComplete engine_ok None (Some 7) armed) (promiseValue request_1) = Broken_promise
   \<and> threadId request_1 \<noteq> fst (snd (GetID engine_ok 2 armed))
   \<and> m_evalResult (NotifyEvalComplete engine_ok (Some 2) (Some 7) armed) = Some request_1
   \<and> shared (NotifyEvalComplete engine_ok (Some 2) (Some 7) armed) = shared armed
   \<and> threadId request_1 = fst (snd (GetID engine_ok 1 armed))
   \<and> m_evalResult (NotifyEvalComplete engine_ok (Some 1) (Some 7) armed) = None
   \<and> shared (NotifyEvalComplete engine_ok (Some 1) (Some 7) armed) (promiseValue request_1)
        = Ready \<lparr>iCorEval = Some 42, Status = S_OK\<rparr>
   \<and> m_evalResult (NotifyEvalComplete engine_ok (Some 1) (Some 7) idle) = None"
proof -
  have h: "m_evalResult armed = Some request_1" "shared armed (promiseValue request_1) = Pending"
    "threadId request_1 \<noteq> fst (snd (GetID engine_ok 2 armed))"
    "threadId request_1 = fst (snd (GetID engine_ok 1 armed))"
    "m_evalResult idle = None"
    by (simp_all add: example_defs)
  have v: "shared (NotifyEvalComplete engine_ok (Some 1) (Some 7) armed) (promiseValue request_1)
        = Ready \<lparr>iCorEval = Some 42, Status = S_OK\<rparr>"
    by (simp add: model_defs example_defs Let_def cong: let_weak_cong)
  from h v
    NotifyEvalComplete_dispatch [where E = engine_ok and s = armed and pe = "Some 7" and t = 2]
    NotifyEvalComplete_dispatch [where E = engine_ok and s = armed and pe = "Some 7" and t = 1]
    NotifyEvalComplete_dispatch [where E = engine_ok and s = idle and pe = "Some 7" and t = 1]
  show ?thesis by auto
qed

text \<open>
  Claim C10. A completion for the owner's thread id that carries a null evaluation handle
  still fulfils the promise and clears the slot. The outcome delivered has the status a
  fresh \<open>evalResultData_t\<close> holds and no value handle, and the only engine call made is
  \<open>GetID\<close>: no result is read from an evaluation handle. The clear without fulfilment
  happens for a null thread, whatever the handle.
\<close>

theorem NotifyEvalComplete_null_eval:
  "m_evalResult s = Some r \<and> threadId r = fst (snd (GetID E t s))
     \<longrightarrow> m_evalResult (NotifyEvalComplete E (Some t) None s) = None
       \<and> shared (NotifyEvalComplete E (Some t) None s) (promiseValue r)
           = Ready \<lparr>iCorEval = None, Status = Status_init E\<rparr>
       \<and> trace (NotifyEvalComplete E (Some t) None s)
           = trace s @ [(Thread_GetID t, respond E (length (trace s)) (Thread_GetID t))]
       \<and> (\<forall>pe. m_evalResult (NotifyEvalComplete E None pe s) = None
             \<and> (\<forall>d. shared (NotifyEvalComplete E None pe s) (promiseValue r) = Ready d
                     \<longrightarrow> shared s (promiseValue r) = Ready d))"
  by (auto simp: NotifyEvalComplete_def Let_def split_def shared_reset_evalResult
           split: option.splits shared_state.splits if_splits)

text \<open>
  On a request armed for thread id 1, a completion for thread 1 with a null handle.
\<close>

theorem NotifyEvalComplete_null_eval_witness:
  "m_evalResult armed = Some request_1
   \<and> threadId request_1 = fst (snd (GetID engine_ok 1 armed))
   \<and> m_evalResult (NotifyEvalComplete engine_ok (Some 1) None armed) = None
   \<and> shared (NotifyEvalComplete engine_ok (Some 1) None armed) (promiseValue request_1)
        = Ready \<lparr>iCorEval = None, Status = Status_init engine_ok\<rparr>
   \<and> trace (NotifyEvalComplete engine_ok (Some 1) None armed) = [(Thread_GetID 1, S_OK)]
   \<and> shared (NotifyEvalComplete engine_ok None None armed) 0 = Broken_promise"
proof -
  have h: "m_evalResult armed = Some request_1
             \<and> threadId request_1 = fst (snd (GetID engine_ok 1 armed))"
    by (simp add: example_defs)
  have b: "shared (NotifyEvalComplete engine_ok None None armed) 0 = Broken_promise"
    by (simp add: model_defs example_defs Let_def cong: let_weak_cong)
  have tr: "trace armed = []" "respond engine_ok 0 (Thread_GetID 1) = S_OK"
    by (simp_all add: example_defs)
  from NotifyEvalComplete_null_eval [of armed request_1 engine_ok 1] h b tr
  show ?thesis by simp
qed

section \<open>One request at a time\<close>




section \<open>The final status\<close>

text \<open>
  Claim C3. Let \<open>raw\<close> be the status the lambda \<open>WaitResult\<close> returned and
  \<open>evalTimeOut\<close> its timeout flag. When \<open>raw\<close> is the aborted status,
  \<open>WaitEvalResult\<close> returns "cannot call on this thread" if the cross-thread flag is
  set, else "operation canceled" if the canceled flag is set, else "timed out". When
  \<open>raw\<close> is another status and the evaluation timed out, it returns "timed out" unless
  \<open>raw\<close> is \<open>E_UNEXPECTED\<close>, which is kept. Otherwise \<open>raw\<close> is returned as it is.
\<close>

theorem WaitEvalResult_status_translation:
  assumes "\<not> FAILED (respond E (length (trace s)) (Thread_GetProcess pThread))"
    and "GetProcess_out E pThread \<noteq> None"
    and "\<not> FAILED (respond E (Suc (length (trace s))) (Thread_GetID pThread))"
    and "WaitResult E pThread (GetID_out E pThread) slot evs1 evs2 (eval_entry E pThread s)
           = Inr (raw, evalTimeOut, slot', s5)"
    and "WaitEvalResult E pThread slot evs1 evs2 s = Inr (ret, slot'', s')"
  shows "(raw = CORDBG_S_FUNC_EVAL_ABORTED \<longrightarrow>
            (m_evalCrossThreadDependency s5 \<longrightarrow> ret = CORDBG_E_CANT_CALL_ON_THIS_THREAD)
          \<and> (\<not> m_evalCrossThreadDependency s5 \<and> m_evalCanceled s5
                \<longrightarrow> ret = COR_E_OPERATIONCANCELED)
          \<and> (\<not> m_evalCrossThreadDependency s5 \<and> \<not> m_evalCanceled s5
                \<longrightarrow> ret = COR_E_TIMEOUT))
       \<and> (raw \<noteq> CORDBG_S_FUNC_EVAL_ABORTED \<and> evalTimeOut \<longrightarrow>
            (raw = E_UNEXPECTED \<longrightarrow> ret = E_UNEXPECTED)
          \<and> (raw \<noteq> E_UNEXPECTED \<longrightarrow> ret = COR_E_TIMEOUT))
       \<and> (raw \<noteq> CORDBG_S_FUNC_EVAL_ABORTED \<and> \<not> evalTimeOut \<longrightarrow> ret = raw)
       \<and> m_evalCrossThreadDependency s' = m_evalCrossThreadDependency s5
       \<and> m_evalCanceled s' = m_evalCanceled s5"
  using WaitEvalResult_final(1,3,4) [OF assms] by simp


text \<open>
  Five runs: an abort after a timeout, an abort by a cross-thread notification, the fatal
  outcome, a late success, and a success in time.
\<close>

theorem WaitEvalResult_status_translation_witness:
  "returned_status (WaitEvalResult engine_aborted 1 (Some None) [] [Ev_NotifyEvalComplete (Some 1) (Some 7)] idle) = Some COR_E_TIMEOUT
   \<and> returned_status (WaitEvalResult engine_aborted 1 (Some None) [Ev_ManagedCallbackCustomNotification 1, Ev_NotifyEvalComplete (Some 1) (Some 7)] [] idle) = Some CORDBG_E_CANT_CALL_ON_THIS_THREAD
   \<and> returned_status (WaitEvalResult engine_ok 1 (Some None) [] [] idle) = Some E_UNEXPECTED
   \<and> returned_status (WaitEvalResult engine_ok 1 (Some None) [] [Ev_NotifyEvalComplete (Some 1) (Some 7)] idle) = Some COR_E_TIMEOUT
   \<and> returned_status (WaitEvalResult engine_ok 1 (Some None) [Ev_NotifyEvalComplete (Some 1) (Some 7)] [] idle) = Some S_OK"
proof -
  have reach: "\<not> FAILED (respond E (length (trace idle)) (Thread_GetProcess 1))"
    "GetProcess_out E 1 \<noteq> None"
    "\<not> FAILED (respond E (Suc (length (trace idle))) (Thread_GetID 1))"
    if "E = engine_aborted \<or> E = engine_ok" for E
    using that by (auto simp: example_defs)
  have 1: "returned_status (WaitEvalResult engine_aborted 1 (Some None) [] [Ev_NotifyEvalComplete (Some 1) (Some 7)] idle) = Some COR_E_TIMEOUT"
  proof -
    have "\<exists>s5. WaitResult engine_aborted 1 (GetID_out engine_aborted 1) (Some None) [] [Ev_NotifyEvalComplete (Some 1) (Some 7)] (eval_entry engine_aborted 1 idle)
          = Inr (CORDBG_S_FUNC_EVAL_ABORTED, True, Some (Some 42), s5)
          \<and> \<not> m_evalCanceled s5
          \<and> \<not> m_evalCrossThreadDependency s5"
      by (simp add: model_defs example_defs Let_def cong: let_weak_cong)
    then obtain s5 where w: "WaitResult engine_aborted 1 (GetID_out engine_aborted 1) (Some None) [] [Ev_NotifyEvalComplete (Some 1) (Some 7)] (eval_entry engine_aborted 1 idle)
          = Inr (CORDBG_S_FUNC_EVAL_ABORTED, True, Some (Some 42), s5)"
      and f: "\<not> m_evalCanceled s5" "\<not> m_evalCrossThreadDependency s5"
      by blast
    have "\<exists>r slot'' s'. WaitEvalResult engine_aborted 1 (Some None) [] [Ev_NotifyEvalComplete (Some 1) (Some 7)] idle = Inr (r, slot'', s')"
      by (simp add: model_defs example_defs Let_def cong: let_weak_cong)
    then obtain r slot'' s' where r: "WaitEvalResult engine_aborted 1 (Some None) [] [Ev_NotifyEvalComplete (Some 1) (Some 7)] idle = Inr (r, slot'', s')"
      by blast
    from WaitEvalResult_status_translation [OF reach [of engine_aborted] w r] f r
    show ?thesis by (simp add: returned_status_def)
  qed
  have 2: "returned_status (WaitEvalResult engine_aborted 1 (Some None) [Ev_ManagedCallbackCustomNotification 1, Ev_NotifyEvalComplete (Some 1) (Some 7)] [] idle) = Some CORDBG_E_CANT_CALL_ON_THIS_THREAD"
  proof -
    have "\<exists>s5. WaitResult engine_aborted 1 (GetID_out engine_aborted 1) (Some None) [Ev_ManagedCallbackCustomNotification 1, Ev_NotifyEvalComplete (Some 1) (Some 7)] [] (eval_entry engine_aborted 1 idle)
          = Inr (CORDBG_S_FUNC_EVAL_ABORTED, False, Some (Some 42), s5)
          \<and> m_evalCrossThreadDependency s5"
      by (simp add: model_defs example_defs Let_def cong: let_weak_cong)
    then obtain s5 where w: "WaitResult engine_aborted 1 (GetID_out engine_aborted 1) (Some None) [Ev_ManagedCallbackCustomNotification 1, Ev_NotifyEvalComplete (Some 1) (Some 7)] [] (eval_entry engine_aborted 1 idle)
          = Inr (CORDBG_S_FUNC_EVAL_ABORTED, False, Some (Some 42), s5)"
      and f: "m_evalCrossThreadDependency s5"
      by blast
    have "\<exists>r slot'' s'. WaitEvalResult engine_aborted 1 (Some None) [Ev_ManagedCallbackCustomNotification 1, Ev_NotifyEvalComplete (Some 1) (Some 7)] [] idle = Inr (r, slot'', s')"
      by (simp add: model_defs example_defs Let_def cong: let_weak_cong)
    then obtain r slot'' s' where r: "WaitEvalResult engine_aborted 1 (Some None) [Ev_ManagedCallbackCustomNotification 1, Ev_NotifyEvalComplete (Some 1) (Some 7)] [] idle = Inr (r, slot'', s')"
      by blast
    from WaitEvalResult_status_translation [OF reach [of engine_aborted] w r] f r
    show ?thesis by (simp add: returned_status_def)
  qed
  have 3: "returned_status (WaitEvalResult engine_ok 1 (Some None) [] [] idle) = Some E_UNEXPECTED"
  proof -
    have "\<exists>s5. WaitResult engine_ok 1 (GetID_out engine_ok 1) (Some None) [] [] (eval_entry engine_ok 1 idle)
          = Inr (E_UNEXPECTED, True, Some None, s5)"
      by (simp add: model_defs example_defs Let_def cong: let_weak_cong)
    then obtain s5 where w: "WaitResult engine_ok 1 (GetID_out engine_ok 1) (Some None) [] [] (eval_entry engine_ok 1 idle)
          = Inr (E_UNEXPECTED, True, Some None, s5)"
      by blast
    have "\<exists>r slot'' s'. WaitEvalResult engine_ok 1 (Some None) [] [] idle = Inr (r, slot'', s')"
      by (simp add: model_defs example_defs Let_def cong: let_weak_cong)
    then obtain r slot'' s' where r: "WaitEvalResult engine_ok 1 (Some None) [] [] idle = Inr (r, slot'', s')"
      by blast
    from WaitEvalResult_status_translation [OF reach [of engine_ok] w r] r
    show ?thesis by (simp add: returned_status_def)
  qed
  have 4: "returned_status (WaitEvalResult engine_ok 1 (Some None) [] [Ev_NotifyEvalComplete (Some 1) (Some 7)] idle) = Some COR_E_TIMEOUT"
  proof -
    have "\<exists>s5. WaitResult engine_ok 1 (GetID_out engine_ok 1) (Some None) [] [Ev_NotifyEvalComplete (Some 1) (Some 7)] (eval_entry engine_ok 1 idle)
          = Inr (S_OK, True, Some (Some 42), s5)"
      by (simp add: model_defs example_defs Let_def cong: let_weak_cong)
    then obtain s5 where w: "WaitResult engine_ok 1 (GetID_out engine_ok 1) (Some None) [] [Ev_NotifyEvalComplete (Some 1) (Some 7)] (eval_entry engine_ok 1 idle)
          = Inr (S_OK, True, Some (Some 42), s5)"
      by blast
    have "\<exists>r slot'' s'. WaitEvalResult engine_ok 1 (Some None) [] [Ev_NotifyEvalComplete (Some 1) (Some 7)] idle = Inr (r, slot'', s')"
      by (simp add: model_defs example_defs Let_def cong: let_weak_cong)
    then obtain r slot'' s' where r: "WaitEvalResult engine_ok 1 (Some None) [] [Ev_NotifyEvalComplete (Some 1) (Some 7)] idle = Inr (r, slot'', s')"
      by blast
    from WaitEvalResult_status_translation [OF reach [of engine_ok] w r] r
    show ?thesis by (simp add: returned_status_def)
  qed
  have 5: "returned_status (WaitEvalResult engine_ok 1 (Some None) [Ev_NotifyEvalComplete (Some 1) (Some 7)] [] idle) = Some S_OK"
  proof -
    have "\<exists>s5. WaitResult engine_ok 1 (GetID_out engine_ok 1) (Some None) [Ev_NotifyEvalComplete (Some 1) (Some 7)] [] (eval_entry engine_ok 1 idle)
          = Inr (S_OK, False, Some (Some 42), s5)"
      by (simp add: model_defs example_defs Let_def cong: let_weak_cong)
    then obtain s5 where w: "WaitResult engine_ok 1 (GetID_out engine_ok 1) (Some None) [Ev_NotifyEvalComplete (Some 1) (Some 7)] [] (eval_entry engine_ok 1 idle)
          = Inr (S_OK, False, Some (Some 42), s5)"
      by blast
    have "\<exists>r slot'' s'. WaitEvalResult engine_ok 1 (Some None) [Ev_NotifyEvalComplete (Some 1) (Some 7)] [] idle = Inr (r, slot'', s')"
      by (simp add: model_defs example_defs Let_def cong: let_weak_cong)
    then obtain r slot'' s' where r: "WaitEvalResult engine_ok 1 (Some None) [Ev_NotifyEvalComplete (Some 1) (Some 7)] [] idle = Inr (r, slot'', s')"
      by blast
    from WaitEvalResult_status_translation [OF reach [of engine_ok] w r] r
    show ?thesis by (simp add: returned_status_def)
  qed
  from 1 2 3 4 5 show ?thesis by simp
qed

section \<open>Aborting on request\<close>

text \<open>
  Claim C8. \<open>ManagedCallbackCustomNotification\<close>: when no request is armed, when the
  thread id cannot be read, or when the armed request belongs to another thread id, it
  returns \<open>S_OK\<close> and only the \<open>GetID\<close> query was made. Otherwise it calls \<open>Abort\<close> on the
  armed handle and, only if that fails, asks for \<open>ICorDebugEval2\<close> and calls \<open>RudeAbort\<close>.
  When both ways fail it returns the failing status of the last call made and leaves the
  flag alone; when one succeeds it sets \<open>m_evalCrossThreadDependency\<close> and returns \<open>S_OK\<close>.
\<close>

theorem ManagedCallbackCustomNotification_cases:
  "(let n = length (trace s);
        hrI = respond E n (Thread_GetID t);
        s1 = s\<lparr>trace := trace s @ [(Thread_GetID t, hrI)]\<rparr>
    in ((m_evalResult s = None \<or> FAILED hrI
          \<or> (\<exists>r. m_evalResult s = Some r \<and> threadId r \<noteq> GetID_out E t))
         \<longrightarrow> ManagedCallbackCustomNotification E t s = (S_OK, s1))
     \<and> (\<forall>r. m_evalResult s = Some r \<and> \<not> FAILED hrI \<and> threadId r = GetID_out E t \<longrightarrow>
          (let e = pEval r;
               hrA = respond E (Suc n) (Eval_Abort e);
               hrQ = respond E (Suc (Suc n)) (Eval_QueryInterface_Eval2 e);
               hrR = respond E (Suc (Suc (Suc n))) (Eval2_RudeAbort e);
               tried = (Eval_Abort e, hrA) #
                  (if FAILED hrA then
                     (Eval_QueryInterface_Eval2 e, hrQ) #
                       (if FAILED hrQ then [] else [(Eval2_RudeAbort e, hrR)])
                   else []);
               s2 = s1\<lparr>trace := trace s1 @ tried\<rparr>
           in ManagedCallbackCustomNotification E t s =
                (if \<not> FAILED hrA then (S_OK, s2\<lparr>m_evalCrossThreadDependency := True\<rparr>)
                 else if FAILED hrQ then (hrQ, s2)
                 else if FAILED hrR then (hrR, s2)
                 else (S_OK, s2\<lparr>m_evalCrossThreadDependency := True\<rparr>)))))"
  by (cases "m_evalResult s")
     (auto simp: ManagedCallbackCustomNotification_def FindEvalForThread_def GetID_def call_def
        Let_def split_def)

text \<open>
  No request, a request of another thread, a successful abort, and both aborts failing.
\<close>

theorem ManagedCallbackCustomNotification_cases_witness:
  "ManagedCallbackCustomNotification engine_ok 1 idle
      = (S_OK, idle\<lparr>trace := [(Thread_GetID 1, S_OK)]\<rparr>)
   \<and> ManagedCallbackCustomNotification engine_ok 2 armed
      = (S_OK, armed\<lparr>trace := [(Thread_GetID 2, S_OK)]\<rparr>)
   \<and> ManagedCallbackCustomNotification engine_ok 1 armed
      = (S_OK, armed\<lparr>trace := [(Thread_GetID 1, S_OK), (Eval_Abort 7, S_OK)],
                      m_evalCrossThreadDependency := True\<rparr>)
   \<and> ManagedCallbackCustomNotification engine_abort_fails 1 armed
      = (E_UNEXPECTED, armed\<lparr>trace := [(Thread_GetID 1, S_OK), (Eval_Abort 7, E_FAIL),
            (Eval_QueryInterface_Eval2 7, S_OK), (Eval2_RudeAbort 7, E_UNEXPECTED)]\<rparr>)"
proof -
  have h: "m_evalResult idle = None" "m_evalResult armed = Some request_1"
    "threadId request_1 \<noteq> GetID_out engine_ok 2" "threadId request_1 = GetID_out engine_ok 1"
    "threadId request_1 = GetID_out engine_abort_fails 1" "pEval request_1 = 7"
    "trace idle = []" "trace armed = []"
    by (simp_all add: example_defs)
  have r: "respond engine_ok n c = S_OK"
    "respond engine_abort_fails n (Thread_GetID t) = S_OK"
    "respond engine_abort_fails n (Eval_Abort e) = E_FAIL"
    "respond engine_abort_fails n (Eval_QueryInterface_Eval2 e) = S_OK"
    "respond engine_abort_fails n (Eval2_RudeAbort e) = E_UNEXPECTED" for n c t e
    by (simp_all add: example_defs)
  from ManagedCallbackCustomNotification_cases [of idle engine_ok 1] h r
  have 1: "ManagedCallbackCustomNotification engine_ok 1 idle
      = (S_OK, idle\<lparr>trace := [(Thread_GetID 1, S_OK)]\<rparr>)"
    by (simp add: Let_def)
  from ManagedCallbackCustomNotification_cases [of armed engine_ok 2] h r
  have 2: "ManagedCallbackCustomNotification engine_ok 2 armed
      = (S_OK, armed\<lparr>trace := [(Thread_GetID 2, S_OK)]\<rparr>)"
    by (simp add: Let_def)
  from ManagedCallbackCustomNotification_cases [of armed engine_ok 1] h r
  have 3: "ManagedCallbackCustomNotification engine_ok 1 armed
      = (S_OK, armed\<lparr>trace := [(Thread_GetID 1, S_OK), (Eval_Abort 7, S_OK)],
                      m_evalCrossThreadDependency := True\<rparr>)"
    by (simp add: Let_def)
  from ManagedCallbackCustomNotification_cases [of armed engine_abort_fails 1] h r
  have 4: "ManagedCallbackCustomNotification engine_abort_fails 1 armed
      = (E_UNEXPECTED, armed\<lparr>trace := [(Thread_GetID 1, S_OK), (Eval_Abort 7, E_FAIL),
            (Eval_QueryInterface_Eval2 7, S_OK), (Eval2_RudeAbort 7, E_UNEXPECTED)]\<rparr>)"
    by (simp add: Let_def)
  from 1 2 3 4 show ?thesis by simp
qed

lemma await_result_null_slot:
  "fst (await_result E f None evs s) \<noteq> CORDBG_S_FUNC_EVAL_ABORTED"
  by (simp add: await_result_def Let_def split_def
        split: future_status.splits shared_state.splits)

lemma WaitResult_null_slot:
  assumes "WaitResult E pThread tid None evs1 evs2 s = Inr (raw, tmo, slot', s')"
  shows "raw \<noteq> CORDBG_S_FUNC_EVAL_ABORTED"
proof -
  have "raw \<noteq> CORDBG_S_FUNC_EVAL_ABORTED"
    if "wait_with_timeout E tid e f None evs1 evs2 s3 = Inr (raw, tmo, slot', s')" for e f s3
    using that await_result_null_slot
    by (auto simp: wait_with_timeout_def Let_def split_def
          split: future_status.splits sum.splits)
  with assms show ?thesis
    by (auto simp: WaitResult_def Let_def split_def split: sum.splits if_splits)
qed

text \<open>
  Claim C9, as the code has it. \<open>CancelEvalRunning\<close> does nothing when no request is
  armed. On an armed request it calls \<open>Abort\<close> on the armed handle and, only if that
  fails, asks for \<open>ICorDebugEval2\<close> and calls \<open>RudeAbort\<close>; it sets \<open>m_evalCanceled\<close>
  exactly when one of the two aborts succeeds and changes nothing else. When the lambda
  \<open>WaitResult\<close> returns the aborted status, the status \<open>WaitEvalResult\<close> returns is
  determined by the two flags: "operation canceled" exactly when only the canceled flag
  is set, "timed out" exactly when neither is set, "cannot call on this thread" exactly
  when the cross-thread flag is set. Without an output slot the lambda never returns the
  aborted status, and the status returned does not depend on the flags: it is the
  lambda's status, or after a timeout "timed out" (\<open>E_UNEXPECTED\<close> being kept).
\<close>

theorem CancelEvalRunning_cases:
  "(m_evalResult s = None \<longrightarrow> CancelEvalRunning E s = s)
   \<and> (\<forall>r. m_evalResult s = Some r \<longrightarrow>
        (let n = length (trace s);
             e = pEval r;
             hrA = respond E n (Eval_Abort e);
             hrQ = respond E (Suc n) (Eval_QueryInterface_Eval2 e);
             hrR = respond E (Suc (Suc n)) (Eval2_RudeAbort e);
             tried = (Eval_Abort e, hrA) #
                (if FAILED hrA then
                   (Eval_QueryInterface_Eval2 e, hrQ) #
                     (if FAILED hrQ then [] else [(Eval2_RudeAbort e, hrR)])
                 else []);
             s1 = s\<lparr>trace := trace s @ tried\<rparr>
         in CancelEvalRunning E s =
              (if \<not> FAILED hrA \<or> (\<not> FAILED hrQ \<and> \<not> FAILED hrR)
               then s1\<lparr>m_evalCanceled := True\<rparr> else s1)))
   \<and> (\<not> FAILED (respond E (length (trace s0)) (Thread_GetProcess pThread))
        \<and> GetProcess_out E pThread \<noteq> None
        \<and> \<not> FAILED (respond E (Suc (length (trace s0))) (Thread_GetID pThread))
        \<and> WaitResult E pThread (GetID_out E pThread) slot evs1 evs2 (eval_entry E pThread s0)
             = Inr (CORDBG_S_FUNC_EVAL_ABORTED, evalTimeOut, slot', s5)
        \<and> WaitEvalResult E pThread slot evs1 evs2 s0 = Inr (ret, slot'', s')
      \<longrightarrow> slot \<noteq> None
          \<and> (ret = COR_E_OPERATIONCANCELED
              \<longleftrightarrow> m_evalCanceled s5 \<and> \<not> m_evalCrossThreadDependency s5)
          \<and> (ret = COR_E_TIMEOUT
              \<longleftrightarrow> \<not> m_evalCanceled s5 \<and> \<not> m_evalCrossThreadDependency s5)
          \<and> (ret = CORDBG_E_CANT_CALL_ON_THIS_THREAD \<longleftrightarrow> m_evalCrossThreadDependency s5))
   \<and> (\<not> FAILED (respond E (length (trace s0)) (Thread_GetProcess pThread))
        \<and> GetProcess_out E pThread \<noteq> None
        \<and> \<not> FAILED (respond E (Suc (length (trace s0))) (Thread_GetID pThread))
        \<and> WaitResult E pThread (GetID_out E pThread) None evs1 evs2 (eval_entry E pThread s0)
             = Inr (raw, evalTimeOut, slot', s5)
        \<and> WaitEvalResult E pThread None evs1 evs2 s0 = Inr (ret, slot'', s')
      \<longrightarrow> raw \<noteq> CORDBG_S_FUNC_EVAL_ABORTED
          \<and> ret = (if evalTimeOut then (if raw = E_UNEXPECTED then E_UNEXPECTED else COR_E_TIMEOUT)
                   else raw))"
proof -
  have a: "m_evalResult s = None \<longrightarrow> CancelEvalRunning E s = s"
    by (simp add: CancelEvalRunning_def)
  have b: "\<forall>r. m_evalResult s = Some r \<longrightarrow>
        (let n = length (trace s);
             e = pEval r;
             hrA = respond E n (Eval_Abort e);
             hrQ = respond E (Suc n) (Eval_QueryInterface_Eval2 e);
             hrR = respond E (Suc (Suc n)) (Eval2_RudeAbort e);
             tried = (Eval_Abort e, hrA) #
                (if FAILED hrA then
                   (Eval_QueryInterface_Eval2 e, hrQ) #
                     (if FAILED hrQ then [] else [(Eval2_RudeAbort e, hrR)])
                 else []);
             s1 = s\<lparr>trace := trace s @ tried\<rparr>
         in CancelEvalRunning E s =
              (if \<not> FAILED hrA \<or> (\<not> FAILED hrQ \<and> \<not> FAILED hrR)
               then s1\<lparr>m_evalCanceled := True\<rparr> else s1))"
    by (auto simp: CancelEvalRunning_def call_def Let_def split_def)
  have c: "slot \<noteq> None
          \<and> (ret = COR_E_OPERATIONCANCELED
              \<longleftrightarrow> m_evalCanceled s5 \<and> \<not> m_evalCrossThreadDependency s5)
          \<and> (ret = COR_E_TIMEOUT
              \<longleftrightarrow> \<not> m_evalCanceled s5 \<and> \<not> m_evalCrossThreadDependency s5)
          \<and> (ret = CORDBG_E_CANT_CALL_ON_THIS_THREAD \<longleftrightarrow> m_evalCrossThreadDependency s5)"
    if "\<not> FAILED (respond E (length (trace s0)) (Thread_GetProcess pThread))"
      and "GetProcess_out E pThread \<noteq> None"
      and "\<not> FAILED (respond E (Suc (length (trace s0))) (Thread_GetID pThread))"
      and "WaitResult E pThread (GetID_out E pThread) slot evs1 evs2 (eval_entry E pThread s0)
             = Inr (CORDBG_S_FUNC_EVAL_ABORTED, evalTimeOut, slot', s5)"
      and "WaitEvalResult E pThread slot evs1 evs2 s0 = Inr (ret, slot'', s')"
  proof -
    have "slot \<noteq> None"
    proof
      assume "slot = None"
      with that(4) WaitResult_null_slot [of E pThread "GetID_out E pThread" evs1 evs2
          "eval_entry E pThread s0" CORDBG_S_FUNC_EVAL_ABORTED evalTimeOut slot' s5]
      show False by simp
    qed
    with WaitEvalResult_final(1) [OF that] show ?thesis by auto
  qed
  have d: "raw \<noteq> CORDBG_S_FUNC_EVAL_ABORTED
          \<and> ret = (if evalTimeOut then (if raw = E_UNEXPECTED then E_UNEXPECTED else COR_E_TIMEOUT)
                   else raw)"
    if "\<not> FAILED (respond E (length (trace s0)) (Thread_GetProcess pThread))"
      and "GetProcess_out E pThread \<noteq> None"
      and "\<not> FAILED (respond E (Suc (length (trace s0))) (Thread_GetID pThread))"
      and "WaitResult E pThread (GetID_out E pThread) None evs1 evs2 (eval_entry E pThread s0)
             = Inr (raw, evalTimeOut, slot', s5)"
      and "WaitEvalResult E pThread None evs1 evs2 s0 = Inr (ret, slot'', s')"
    using WaitEvalResult_final(1) [OF that] WaitResult_null_slot [OF that(4)]
    by simp
  from a b c d show ?thesis by blast
qed

text \<open>
  No request, a successful abort, both aborts failing; a cancelled evaluation with an
  output slot whose completion arrives with the aborted status; and the same evaluation
  without an output slot.
\<close>

theorem CancelEvalRunning_cases_witness:
  "CancelEvalRunning engine_ok idle = idle
   \<and> CancelEvalRunning engine_ok armed
        = armed\<lparr>trace := [(Eval_Abort 7, S_OK)], m_evalCanceled := True\<rparr>
   \<and> CancelEvalRunning engine_abort_fails armed
        = armed\<lparr>trace := [(Eval_Abort 7, E_FAIL), (Eval_QueryInterface_Eval2 7, S_OK),
             (Eval2_RudeAbort 7, E_UNEXPECTED)]\<rparr>
   \<and> returned_status (WaitEvalResult engine_aborted 1 (Some None) [Ev_CancelEvalRunning]
        [Ev_NotifyEvalComplete (Some 1) (Some 7)] idle) = Some COR_E_OPERATIONCANCELED
   \<and> returned_status (WaitEvalResult engine_aborted 1 None
        [Ev_CancelEvalRunning, Ev_NotifyEvalComplete (Some 1) (Some 7)] [] idle) = Some S_OK"
proof -
  have h: "m_evalResult idle = None" "m_evalResult armed = Some request_1"
    "pEval request_1 = 7" "trace armed = []"
    by (simp_all add: example_defs)
  have r: "respond engine_ok n c = S_OK"
    "respond engine_abort_fails n (Eval_Abort e) = E_FAIL"
    "respond engine_abort_fails n (Eval_QueryInterface_Eval2 e) = S_OK"
    "respond engine_abort_fails n (Eval2_RudeAbort e) = E_UNEXPECTED" for n c e
    by (simp_all add: example_defs)
  have reach: "\<not> FAILED (respond engine_aborted (length (trace idle)) (Thread_GetProcess 1))
    \<and> GetProcess_out engine_aborted 1 \<noteq> None
    \<and> \<not> FAILED (respond engine_aborted (Suc (length (trace idle))) (Thread_GetID 1))"
    by (simp add: example_defs)
  have "\<exists>s5. WaitResult engine_aborted 1 (GetID_out engine_aborted 1) (Some None)
        [Ev_CancelEvalRunning] [Ev_NotifyEvalComplete (Some 1) (Some 7)]
        (eval_entry engine_aborted 1 idle)
          = Inr (CORDBG_S_FUNC_EVAL_ABORTED, True, Some (Some 42), s5)
          \<and> m_evalCanceled s5 \<and> \<not> m_evalCrossThreadDependency s5"
    by (simp add: model_defs example_defs Let_def cong: let_weak_cong)
  then obtain s5 where w: "WaitResult engine_aborted 1 (GetID_out engine_aborted 1) (Some None)
        [Ev_CancelEvalRunning] [Ev_NotifyEvalComplete (Some 1) (Some 7)]
        (eval_entry engine_aborted 1 idle)
          = Inr (CORDBG_S_FUNC_EVAL_ABORTED, True, Some (Some 42), s5)"
    and f: "m_evalCanceled s5" "\<not> m_evalCrossThreadDependency s5"
    by blast
  have "\<exists>ret slot'' s'. WaitEvalResult engine_aborted 1 (Some None) [Ev_CancelEvalRunning]
        [Ev_NotifyEvalComplete (Some 1) (Some 7)] idle = Inr (ret, slot'', s')"
    by (simp add: model_defs example_defs Let_def cong: let_weak_cong)
  then obtain ret slot'' s' where ret: "WaitEvalResult engine_aborted 1 (Some None)
        [Ev_CancelEvalRunning] [Ev_NotifyEvalComplete (Some 1) (Some 7)] idle = Inr (ret, slot'', s')"
    by blast
  have "\<exists>s6. WaitResult engine_aborted 1 (GetID_out engine_aborted 1) None
        [Ev_CancelEvalRunning, Ev_NotifyEvalComplete (Some 1) (Some 7)] []
        (eval_entry engine_aborted 1 idle) = Inr (S_OK, False, None, s6)"
    by (simp add: model_defs example_defs Let_def cong: let_weak_cong)
  then obtain s6 where w6: "WaitResult engine_aborted 1 (GetID_out engine_aborted 1) None
        [Ev_CancelEvalRunning, Ev_NotifyEvalComplete (Some 1) (Some 7)] []
        (eval_entry engine_aborted 1 idle) = Inr (S_OK, False, None, s6)"
    by blast
  have "\<exists>ret slot'' s'. WaitEvalResult engine_aborted 1 None
        [Ev_CancelEvalRunning, Ev_NotifyEvalComplete (Some 1) (Some 7)] [] idle
          = Inr (ret, slot'', s')"
    by (simp add: model_defs example_defs Let_def cong: let_weak_cong)
  then obtain ret6 slot6 s6' where ret6: "WaitEvalResult engine_aborted 1 None
        [Ev_CancelEvalRunning, Ev_NotifyEvalComplete (Some 1) (Some 7)] [] idle
          = Inr (ret6, slot6, s6')"
    by blast
  from CancelEvalRunning_cases [where s = idle and E = engine_ok] h
  have 1: "CancelEvalRunning engine_ok idle = idle"
    by simp
  from CancelEvalRunning_cases [where s = armed and E = engine_ok] h r
  have 2: "CancelEvalRunning engine_ok armed
        = armed\<lparr>trace := [(Eval_Abort 7, S_OK)], m_evalCanceled := True\<rparr>"
    by (simp add: Let_def)
  from CancelEvalRunning_cases [where s = armed and E = engine_abort_fails] h r
  have 3: "CancelEvalRunning engine_abort_fails armed
        = armed\<lparr>trace := [(Eval_Abort 7, E_FAIL), (Eval_QueryInterface_Eval2 7, S_OK),
             (Eval2_RudeAbort 7, E_UNEXPECTED)]\<rparr>"
    by (simp add: Let_def)
  from CancelEvalRunning_cases [where s = idle and E = engine_aborted and ?s0.0 = idle
      and pThread = 1 and slot = "Some None" and ?evs1.0 = "[Ev_CancelEvalRunning]"
      and ?evs2.0 = "[Ev_NotifyEvalComplete (Some 1) (Some 7)]" and evalTimeOut = True
      and slot' = "Some (Some 42)" and ?s5.0 = s5 and ret = ret and slot'' = slot'' and s' = s']
    reach w ret f
  have 4: "ret = COR_E_OPERATIONCANCELED"
    by blast
  from CancelEvalRunning_cases [where s = idle and E = engine_aborted and ?s0.0 = idle
      and pThread = 1
      and ?evs1.0 = "[Ev_CancelEvalRunning, Ev_NotifyEvalComplete (Some 1) (Some 7)]"
      and ?evs2.0 = "[]" and evalTimeOut = False and raw = S_OK
      and slot' = None and ?s5.0 = s6 and ret = ret6 and slot'' = slot6 and s' = s6']
    reach w6 ret6
  have 5: "ret6 = S_OK"
    by simp
  from 1 2 3 4 5 ret ret6 show ?thesis
    by (simp add: returned_status_def)
qed

text \<open>
  The final status does not always tell a cancellation apart. Without an output slot a
  cancelled evaluation whose completion arrives in time returns \<open>S_OK\<close>; when its
  completion arrives after the timeout it returns "timed out", as the evaluation that
  was not cancelled does; the canceled flag is set in the first two runs only.
\<close>

theorem CancelEvalRunning_null_slot_counterexample:
  "returned_status (WaitEvalResult engine_aborted 1 None
      [Ev_CancelEvalRunning, Ev_NotifyEvalComplete (Some 1) (Some 7)] [] idle) = Some S_OK
   \<and> map_option m_evalCanceled (returned_state (WaitEvalResult engine_aborted 1 None
      [Ev_CancelEvalRunning, Ev_NotifyEvalComplete (Some 1) (Some 7)] [] idle)) = Some True
   \<and> returned_status (WaitEvalResult engine_aborted 1 None
      [Ev_CancelEvalRunning] [Ev_NotifyEvalComplete (Some 1) (Some 7)] idle) = Some COR_E_TIMEOUT
   \<and> map_option m_evalCanceled (returned_state (WaitEvalResult engine_aborted 1 None
      [Ev_CancelEvalRunning] [Ev_NotifyEvalComplete (Some 1) (Some 7)] idle)) = Some True
   \<and> returned_status (WaitEvalResult engine_aborted 1 None
      [] [Ev_NotifyEvalComplete (Some 1) (Some 7)] idle) = Some COR_E_TIMEOUT
   \<and> map_option m_evalCanceled (returned_state (WaitEvalResult engine_aborted 1 None
      [] [Ev_NotifyEvalComplete (Some 1) (Some 7)] idle)) = Some False
   \<and> S_OK \<noteq> COR_E_OPERATIONCANCELED
   \<and> COR_E_TIMEOUT \<noteq> COR_E_OPERATIONCANCELED"
proof -
  have "S_OK \<noteq> COR_E_OPERATIONCANCELED"
    by (simp add: S_OK_def COR_E_OPERATIONCANCELED_def)
  then show ?thesis
    by (simp add: model_defs example_defs Let_def cong: let_weak_cong)
qed

section \<open>Cleanup on every exit\<close>

lemma debug_state_SetDebugState:
  "debug_state (SetDebugState E t st s) =
     (if FAILED (respond E (length (trace s)) (Thread_SetDebugState t st)) then debug_state s
      else (debug_state s)(t := st))"
  by (simp add: SetDebugState_def Let_def split_def)

lemma debug_state_ChangeThreadsState_loop:
  assumes "\<forall>n. \<not> FAILED (respond E n ThreadEnum_Next)"
    and "\<forall>n t. \<not> FAILED (respond E n (Thread_GetID t))"
    and "\<forall>n t. \<not> FAILED (respond E n (Thread_SetDebugState t st))"
  shows "debug_state (ChangeThreadsState_loop E tid st ts s) t =
     (if t \<in> set ts \<and> GetID_out E t \<noteq> tid then st else debug_state s t)"
  using assms
  by (induction ts arbitrary: s) (auto simp: Let_def split_def debug_state_SetDebugState)

lemma debug_state_ChangeThreadsState:
  assumes "ChangeThreadsState E tid st s = Inr s'"
    and "\<forall>n. \<not> FAILED (respond E n ThreadEnum_Next)"
    and "\<forall>n t. \<not> FAILED (respond E n (Thread_GetID t))"
    and "\<forall>n t. \<not> FAILED (respond E n (Thread_SetDebugState t st))"
  shows "debug_state s' t =
     (if t \<in> set (EnumerateThreads_out E (length (trace s))) \<and> GetID_out E t \<noteq> tid
      then st else debug_state s t)"
  using assms(1) debug_state_ChangeThreadsState_loop [OF assms(2-4)]
  by (auto simp: ChangeThreadsState_def Let_def split_def split: if_splits)

lemma custom_notification_SetEnableCustomNotification:
  assumes "\<forall>n. \<not> FAILED (respond E n Process_QueryInterface_Process3)"
    and "\<forall>n. \<not> FAILED (respond E n (Process3_SetEnableCustomNotification b))"
  shows "custom_notification (snd (SetEnableCustomNotification E b s)) = b"
  using assms by (simp add: SetEnableCustomNotification_def Let_def split_def)

text \<open>
  Claim C4. Whenever \<open>WaitEvalResult\<close> has read the process and the thread id and
  returns, whatever happened in between, its last two steps are the request to disable
  the custom notification and the pass that sets every enumerated thread other than the
  evaluating one to \<open>THREAD_RUN\<close>. The code ignores the outcome of these requests; when
  the engine accepts them, on return the notification is disabled and all those threads
  are running.
\<close>

theorem WaitEvalResult_cleanup:
  assumes "WaitEvalResult E pThread slot evs1 evs2 s = Inr (ret, slot', s')"
    and "\<not> FAILED (respond E (length (trace s)) (Thread_GetProcess pThread))"
    and "GetProcess_out E pThread \<noteq> None"
    and "\<not> FAILED (respond E (Suc (length (trace s))) (Thread_GetID pThread))"
  shows "(\<exists>s5. ChangeThreadsState E (GetID_out E pThread) THREAD_RUN
                 (snd (SetEnableCustomNotification E False s5)) = Inr s')
     \<and> ((\<forall>n. \<not> FAILED (respond E n Process_QueryInterface_Process3))
          \<and> (\<forall>n. \<not> FAILED (respond E n (Process3_SetEnableCustomNotification False)))
          \<and> (\<forall>n. \<not> FAILED (respond E n ThreadEnum_Next))
          \<and> (\<forall>n t. \<not> FAILED (respond E n (Thread_GetID t)))
          \<and> (\<forall>n t. \<not> FAILED (respond E n (Thread_SetDebugState t THREAD_RUN)))
          \<and> (\<forall>n. EnumerateThreads_out E n = ts)
        \<longrightarrow> \<not> custom_notification s'
            \<and> (\<forall>t \<in> set ts. GetID_out E t \<noteq> GetID_out E pThread
                  \<longrightarrow> debug_state s' t = THREAD_RUN))"
proof -
  from assms(1) WaitEvalResult_reached [OF assms(2-4), of slot evs1 evs2]
  obtain wres where "WaitResult E pThread (GetID_out E pThread) slot evs1 evs2
      (eval_entry E pThread s) = Inr wres"
    by (cases "WaitResult E pThread (GetID_out E pThread) slot evs1 evs2
      (eval_entry E pThread s)") auto
  then obtain raw tmo slot'' s5 where w: "WaitResult E pThread (GetID_out E pThread) slot evs1 evs2
      (eval_entry E pThread s) = Inr (raw, tmo, slot'', s5)"
    by (cases wres) auto
  note fin = WaitEvalResult_final(7) [OF assms(2-4) w assms(1)]
  have "\<not> custom_notification s'
      \<and> (\<forall>t \<in> set ts. GetID_out E t \<noteq> GetID_out E pThread \<longrightarrow> debug_state s' t = THREAD_RUN)"
    if acc: "\<forall>n. \<not> FAILED (respond E n Process_QueryInterface_Process3)"
      "\<forall>n. \<not> FAILED (respond E n (Process3_SetEnableCustomNotification False))"
      "\<forall>n. \<not> FAILED (respond E n ThreadEnum_Next)"
      "\<forall>n t. \<not> FAILED (respond E n (Thread_GetID t))"
      "\<forall>n t. \<not> FAILED (respond E n (Thread_SetDebugState t THREAD_RUN))"
      "\<forall>n. EnumerateThreads_out E n = ts"
  proof -
    from ChangeThreadsState_frame(6) [OF fin]
      custom_notification_SetEnableCustomNotification [OF acc(1,2)]
    have "\<not> custom_notification s'" by simp
    moreover from debug_state_ChangeThreadsState [OF fin acc(3-5)] acc(6)
    have "\<forall>t \<in> set ts. GetID_out E t \<noteq> GetID_out E pThread \<longrightarrow> debug_state s' t = THREAD_RUN"
      by simp
    ultimately show ?thesis by simp
  qed
  with fin show ?thesis by blast
qed

text \<open>
  The five exit paths, each started with all threads suspended and the notification
  enabled: completion in time, setup failure, \<open>Continue\<close> failure, completion after the
  timeout, and no completion at all.
\<close>

theorem WaitEvalResult_cleanup_witness:
  "returned_status (WaitEvalResult engine_ok 1 None [Ev_NotifyEvalComplete (Some 1) (Some 7)] [] parked) = Some S_OK
   \<and> returned_notification (WaitEvalResult engine_ok 1 None [Ev_NotifyEvalComplete (Some 1) (Some 7)] [] parked) = Some False
   \<and> returned_debug_state (WaitEvalResult engine_ok 1 None [Ev_NotifyEvalComplete (Some 1) (Some 7)] [] parked) 2 = Some THREAD_RUN
   \<and> returned_debug_state (WaitEvalResult engine_ok 1 None [Ev_NotifyEvalComplete (Some 1) (Some 7)] [] parked) 3 = Some THREAD_RUN
   \<and> returned_status (WaitEvalResult engine_setup_fails 1 None [] [] parked) = Some E_FAIL
   \<and> returned_notification (WaitEvalResult engine_setup_fails 1 None [] [] parked) = Some False
   \<and> returned_debug_state (WaitEvalResult engine_setup_fails 1 None [] [] parked) 2 = Some THREAD_RUN
   \<and> returned_debug_state (WaitEvalResult engine_setup_fails 1 None [] [] parked) 3 = Some THREAD_RUN
   \<and> returned_status (WaitEvalResult engine_continue_fails 1 None [] [] parked) = Some E_FAIL
   \<and> returned_notification (WaitEvalResult engine_continue_fails 1 None [] [] parked) = Some False
   \<and> returned_debug_state (WaitEvalResult engine_continue_fails 1 None [] [] parked) 2 = Some THREAD_RUN
   \<and> returned_debug_state (WaitEvalResult engine_continue_fails 1 None [] [] parked) 3 = Some THREAD_RUN
   \<and> returned_status (WaitEvalResult engine_ok 1 None [] [Ev_NotifyEvalComplete (Some 1) (Some 7)] parked) = Some COR_E_TIMEOUT
   \<and> returned_notification (WaitEvalResult engine_ok 1 None [] [Ev_NotifyEvalComplete (Some 1) (Some 7)] parked) = Some False
   \<and> returned_debug_state (WaitEvalResult engine_ok 1 None [] [Ev_NotifyEvalComplete (Some 1) (Some 7)] parked) 2 = Some THREAD_RUN
   \<and> returned_debug_state (WaitEvalResult engine_ok 1 None [] [Ev_NotifyEvalComplete (Some 1) (Some 7)] parked) 3 = Some THREAD_RUN
   \<and> returned_status (WaitEvalResult engine_ok 1 None [] [] parked) = Some E_UNEXPECTED
   \<and> returned_notification (WaitEvalResult engine_ok 1 None [] [] parked) = Some False
   \<and> returned_debug_state (WaitEvalResult engine_ok 1 None [] [] parked) 2 = Some THREAD_RUN
   \<and> returned_debug_state (WaitEvalResult engine_ok 1 None [] [] parked) 3 = Some THREAD_RUN"
proof -
  have acc: "\<not> FAILED (respond E (length (trace parked)) (Thread_GetProcess 1))"
    "GetProcess_out E 1 \<noteq> None"
    "\<not> FAILED (respond E (Suc (length (trace parked))) (Thread_GetID 1))"
    "\<forall>n. \<not> FAILED (respond E n Process_QueryInterface_Process3)"
    "\<forall>n. \<not> FAILED (respond E n (Process3_SetEnableCustomNotification False))"
    "\<forall>n. \<not> FAILED (respond E n ThreadEnum_Next)"
    "\<forall>n t. \<not> FAILED (respond E n (Thread_GetID t))"
    "\<forall>n t. \<not> FAILED (respond E n (Thread_SetDebugState t THREAD_RUN))"
    "\<forall>n. EnumerateThreads_out E n = [1, 2, 3]"
    "GetID_out E 2 \<noteq> GetID_out E 1" "GetID_out E 3 \<noteq> GetID_out E 1"
    if "E = engine_ok \<or> E = engine_setup_fails \<or> E = engine_continue_fails" for E
    using that by (auto simp: example_defs)
  have p1: "returned_status (WaitEvalResult engine_ok 1 None [Ev_NotifyEvalComplete (Some 1) (Some 7)] [] parked) = Some S_OK
   \<and> returned_notification (WaitEvalResult engine_ok 1 None [Ev_NotifyEvalComplete (Some 1) (Some 7)] [] parked) = Some False
   \<and> returned_debug_state (WaitEvalResult engine_ok 1 None [Ev_NotifyEvalComplete (Some 1) (Some 7)] [] parked) 2 = Some THREAD_RUN
   \<and> returned_debug_state (WaitEvalResult engine_ok 1 None [Ev_NotifyEvalComplete (Some 1) (Some 7)] [] parked) 3 = Some THREAD_RUN"
  proof -
    have "\<exists>slot' s'. WaitEvalResult engine_ok 1 None [Ev_NotifyEvalComplete (Some 1) (Some 7)] [] parked = Inr (S_OK, slot', s')"
      by (simp add: model_defs example_defs Let_def cong: let_weak_cong)
    then obtain slot' s' where r: "WaitEvalResult engine_ok 1 None [Ev_NotifyEvalComplete (Some 1) (Some 7)] [] parked = Inr (S_OK, slot', s')"
      by blast
    from WaitEvalResult_cleanup [OF r, where ts = "[1, 2, 3]"] acc [of engine_ok] r
    show ?thesis
      by (simp add: returned_status_def returned_notification_def returned_debug_state_def)
  qed
  have p2: "returned_status (WaitEvalResult engine_setup_fails 1 None [] [] parked) = Some E_FAIL
   \<and> returned_notification (WaitEvalResult engine_setup_fails 1 None [] [] parked) = Some False
   \<and> returned_debug_state (WaitEvalResult engine_setup_fails 1 None [] [] parked) 2 = Some THREAD_RUN
   \<and> returned_debug_state (WaitEvalResult engine_setup_fails 1 None [] [] parked) 3 = Some THREAD_RUN"
  proof -
    have "\<exists>slot' s'. WaitEvalResult engine_setup_fails 1 None [] [] parked = Inr (E_FAIL, slot', s')"
      by (simp add: model_defs example_defs Let_def cong: let_weak_cong)
    then obtain slot' s' where r: "WaitEvalResult engine_setup_fails 1 None [] [] parked = Inr (E_FAIL, slot', s')"
      by blast
    from WaitEvalResult_cleanup [OF r, where ts = "[1, 2, 3]"] acc [of engine_setup_fails] r
    show ?thesis
      by (simp add: returned_status_def returned_notification_def returned_debug_state_def)
  qed
  have p3: "returned_status (WaitEvalResult engine_continue_fails 1 None [] [] parked) = Some E_FAIL
   \<and> returned_notification (WaitEvalResult engine_continue_fails 1 None [] [] parked) = Some False
   \<and> returned_debug_state (WaitEvalResult engine_continue_fails 1 None [] [] parked) 2 = Some THREAD_RUN
   \<and> returned_debug_state (WaitEvalResult engine_continue_fails 1 None [] [] parked) 3 = Some THREAD_RUN"
  proof -
    have "\<exists>slot' s'. WaitEvalResult engine_continue_fails 1 None [] [] parked = Inr (E_FAIL, slot', s')"
      by (simp add: model_defs example_defs Let_def cong: let_weak_cong)
    then obtain slot' s' where r: "WaitEvalResult engine_continue_fails 1 None [] [] parked = Inr (E_FAIL, slot', s')"
      by blast
    from WaitEvalResult_cleanup [OF r, where ts = "[1, 2, 3]"] acc [of engine_continue_fails] r
    show ?thesis
      by (simp add: returned_status_def returned_notification_def returned_debug_state_def)
  qed
  have p4: "returned_status (WaitEvalResult engine_ok 1 None [] [Ev_NotifyEvalComplete (Some 1) (Some 7)] parked) = Some COR_E_TIMEOUT
   \<and> returned_notification (WaitEvalResult engine_ok 1 None [] [Ev_NotifyEvalComplete (Some 1) (Some 7)] parked) = Some False
   \<and> returned_debug_state (WaitEvalResult engine_ok 1 None [] [Ev_NotifyEvalComplete (Some 1) (Some 7)] parked) 2 = Some THREAD_RUN
   \<and> returned_debug_state (WaitEvalResult engine_ok 1 None [] [Ev_NotifyEvalComplete (Some 1) (Some 7)] parked) 3 = Some THREAD_RUN"
  proof -
    have "\<exists>slot' s'. WaitEvalResult engine_ok 1 None [] [Ev_NotifyEvalComplete (Some 1) (Some 7)] parked = Inr (COR_E_TIMEOUT, slot', s')"
      by (simp add: model_defs example_defs Let_def cong: let_weak_cong)
    then obtain slot' s' where r: "WaitEvalResult engine_ok 1 None [] [Ev_NotifyEvalComplete (Some 1) (Some 7)] parked = Inr (COR_E_TIMEOUT, slot', s')"
      by blast
    from WaitEvalResult_cleanup [OF r, where ts = "[1, 2, 3]"] acc [of engine_ok] r
    show ?thesis
      by (simp add: returned_status_def returned_notification_def returned_debug_state_def)
  qed
  have p5: "returned_status (WaitEvalResult engine_ok 1 None [] [] parked) = Some E_UNEXPECTED
   \<and> returned_notification (WaitEvalResult engine_ok 1 None [] [] parked) = Some False
   \<and> returned_debug_state (WaitEvalResult engine_ok 1 None [] [] parked) 2 = Some THREAD_RUN
   \<and> returned_debug_state (WaitEvalResult engine_ok 1 None [] [] parked) 3 = Some THREAD_RUN"
  proof -
    have "\<exists>slot' s'. WaitEvalResult engine_ok 1 None [] [] parked = Inr (E_UNEXPECTED, slot', s')"
      by (simp add: model_defs example_defs Let_def cong: let_weak_cong)
    then obtain slot' s' where r: "WaitEvalResult engine_ok 1 None [] [] parked = Inr (E_UNEXPECTED, slot', s')"
      by blast
    from WaitEvalResult_cleanup [OF r, where ts = "[1, 2, 3]"] acc [of engine_ok] r
    show ?thesis
      by (simp add: returned_status_def returned_notification_def returned_debug_state_def)
  qed
  from p1 p2 p3 p4 p5 show ?thesis by simp
qed

section \<open>The setup callback\<close>

lemma milestones_append [simp]: "milestones (a @ b) = milestones a @ milestones b"
  by (simp add: milestones_def)

lemma milestones_Nil [simp]: "milestones [] = []"
  by (simp add: milestones_def)

lemma milestones_Cons [simp]:
  "milestones (x # tr) = (if milestone (fst x) then x # milestones tr else milestones tr)"
  by (simp add: milestones_def)

lemma milestones_SetDebugState [simp]:
  "milestones (trace (SetDebugState E t st s)) = milestones (trace s)"
  by (simp add: SetDebugState_def Let_def split_def)

lemma milestones_ChangeThreadsState_loop [simp]:
  "milestones (trace (ChangeThreadsState_loop E tid st ts s)) = milestones (trace s)"
  by (induction ts arbitrary: s) (simp_all add: Let_def split_def)

lemma milestones_ChangeThreadsState:
  "ChangeThreadsState E tid st s = Inr s' \<Longrightarrow> milestones (trace s') = milestones (trace s)"
  by (auto simp: ChangeThreadsState_def Let_def split_def split: if_splits)

lemma milestones_SetEnableCustomNotification [simp]:
  "milestones (trace (snd (SetEnableCustomNotification E b s))) = milestones (trace s)"
  by (simp add: SetEnableCustomNotification_def Let_def split_def)

lemma milestones_eval_entry [simp]:
  "milestones (trace (eval_entry E pThread s)) = milestones (trace s)"
  by (simp add: eval_entry_def)

lemma milestones_NotifyEvalComplete [simp]:
  "milestones (trace (NotifyEvalComplete E pt pe s)) = milestones (trace s)"
  by (simp add: NotifyEvalComplete_def Let_def split_def split: option.splits)

lemma milestones_CancelEvalRunning [simp]:
  "milestones (trace (CancelEvalRunning E s)) = milestones (trace s)"
  by (simp add: CancelEvalRunning_def Let_def split_def split: option.splits)

lemma milestones_ManagedCallbackCustomNotification [simp]:
  "milestones (trace (snd (ManagedCallbackCustomNotification E t s))) = milestones (trace s)"
  by (simp add: ManagedCallbackCustomNotification_def FindEvalForThread_def Let_def split_def
        split: option.splits)

lemma milestones_run_event [simp]:
  "milestones (trace (run_event E ev s)) = milestones (trace s)"
  by (cases ev) simp_all

lemma milestones_run_events [simp]:
  "milestones (trace (run_events E evs s)) = milestones (trace s)"
  by (induction evs arbitrary: s) simp_all

lemma milestones_wait_for [simp]:
  "milestones (trace (snd (wait_for E f evs s))) = milestones (trace s)"
  by (simp add: wait_for_def Let_def split: shared_state.splits)

lemma milestones_await_result [simp]:
  "milestones (trace (snd (snd (await_result E f slot evs s)))) = milestones (trace s)"
  by (simp add: await_result_def Let_def split_def
        split: future_status.splits shared_state.splits option.splits)

lemma milestones_abort_on_timeout:
  assumes "abort_on_timeout E tid e s = Inr s'"
  shows "\<exists>hr. milestones (trace s') = milestones (trace s) @ [(Process_Continue, hr)]"
proof -
  from assms obtain s2 where s2: "ChangeThreadsState E tid THREAD_RUN (snd (call E Process_Stop s)) = Inr s2"
    by (auto simp: abort_on_timeout_def Let_def split_def split: sum.splits)
  from milestones_ChangeThreadsState [OF s2]
  have "milestones (trace s2) = milestones (trace s)" by simp
  with assms s2 show ?thesis
    by (auto simp: abort_on_timeout_def Let_def split_def)
qed

lemma milestones_wait_with_timeout:
  assumes "wait_with_timeout E tid e f slot evs1 evs2 s = Inr (raw, tmo, slot', s')"
  shows "\<exists>rest. milestones (trace s') = milestones (trace s) @ rest
           \<and> (\<forall>x \<in> set rest. fst x = Process_Continue)"
proof (cases "fst (wait_for E f evs1 s)")
  case ready
  with assms have "s' = snd (snd (await_result E f slot evs2 (snd (wait_for E f evs1 s))))"
    by (auto simp: wait_with_timeout_def Let_def split_def)
  then have "milestones (trace s') = milestones (trace s) @ []" by simp
  then show ?thesis by (intro exI [of _ "[]"]) simp
next
  case timeout
  with assms obtain s5 where s5: "abort_on_timeout E tid e (snd (wait_for E f evs1 s)) = Inr s5"
    and s': "s' = snd (snd (await_result E f slot evs2 s5))"
    by (auto simp: wait_with_timeout_def Let_def split_def split: sum.splits)
  from milestones_abort_on_timeout [OF s5] obtain hr
    where "milestones (trace s5) = milestones (trace s) @ [(Process_Continue, hr)]"
    by auto
  with s' have "milestones (trace s') = milestones (trace s) @ [(Process_Continue, hr)]" by simp
  then show ?thesis by (intro exI [of _ "[(Process_Continue, hr)]"]) simp
qed

lemma milestones_RunEval:
  assumes "RunEval E pThread e s = Inr (hr, f, s')"
  shows "\<exists>hrS rest. milestones (trace s') = milestones (trace s) @ (cbSetupEval e, hrS) # rest
           \<and> (\<forall>x \<in> set rest. fst x = Process_Continue)
           \<and> (FAILED hrS \<longrightarrow> rest = [] \<and> hr = hrS \<and> m_evalResult s' = None)"
  using assms
  by (auto simp: RunEval_def Let_def split_def split: if_splits)

lemma milestones_WaitResult:
  assumes "WaitResult E pThread tid slot evs1 evs2 s = Inr (raw, tmo, slot', s')"
    and "\<forall>n. \<not> FAILED (respond E n (Thread_CreateEval pThread))"
  shows "\<exists>hrC e hrS rest.
           milestones (trace s') = milestones (trace s)
              @ (Thread_CreateEval pThread, hrC) # (cbSetupEval e, hrS) # rest
           \<and> (\<forall>x \<in> set rest. fst x = Process_Continue)
           \<and> (FAILED hrS \<longrightarrow> rest = [] \<and> raw = hrS \<and> \<not> tmo \<and> m_evalResult s' = None)"
proof -
  from assms(1) obtain s1 where s1: "ChangeThreadsState E tid THREAD_SUSPEND s = Inr s1"
    by (auto simp: WaitResult_def split: sum.splits)
  define e where "e = CreateEval_out E (length (trace s1))"
  define hrC where "hrC = respond E (length (trace s1)) (Thread_CreateEval pThread)"
  define s2 where "s2 = snd (call E (Thread_CreateEval pThread) s1)"
  have m2: "milestones (trace s2) = milestones (trace s) @ [(Thread_CreateEval pThread, hrC)]"
    using milestones_ChangeThreadsState [OF s1] by (simp add: s2_def hrC_def)
  from assms s1 obtain hr f s3 where r: "RunEval E pThread e s2 = Inr (hr, f, s3)"
    by (auto simp: WaitResult_def Let_def split_def e_def s2_def split: sum.splits)
  from milestones_RunEval [OF r] obtain hrS rest1
    where m3: "milestones (trace s3) = milestones (trace s2) @ (cbSetupEval e, hrS) # rest1"
      and c1: "\<forall>x \<in> set rest1. fst x = Process_Continue"
      and f1: "FAILED hrS \<longrightarrow> rest1 = [] \<and> hr = hrS \<and> m_evalResult s3 = None"
    by blast
  show ?thesis
  proof (cases "FAILED hr")
    case True
    with assms s1 r have "raw = hr" "\<not> tmo" "s' = s3"
      by (auto simp: WaitResult_def Let_def split_def e_def s2_def)
    with m2 m3 c1 f1 show ?thesis by auto
  next
    case False
    with assms s1 r have w: "wait_with_timeout E tid e f slot evs1 evs2 s3 = Inr (raw, tmo, slot', s')"
      by (auto simp: WaitResult_def Let_def split_def e_def s2_def)
    from milestones_wait_with_timeout [OF w] obtain rest2
      where m4: "milestones (trace s') = milestones (trace s3) @ rest2"
        and c2: "\<forall>x \<in> set rest2. fst x = Process_Continue"
      by blast
    from False f1 have nf: "\<not> FAILED hrS"
      by auto
    from m2 m3 m4 have "milestones (trace s') = milestones (trace s)
              @ (Thread_CreateEval pThread, hrC) # (cbSetupEval e, hrS) # (rest1 @ rest2)"
      by simp
    moreover from c1 c2 have "\<forall>x \<in> set (rest1 @ rest2). fst x = Process_Continue" by auto
    ultimately show ?thesis using nf by blast
  qed
qed

text \<open>
  Claim C7. Among the calls that create the evaluation handle, run the setup callback and
  resume the process, a call of \<open>WaitEvalResult\<close> that gets its process, its thread id
  and its evaluation handle makes exactly these, in this order: \<open>CreateEval\<close>, then the
  setup callback once, then only \<open>Continue\<close> calls. When the callback returns a failure
  status there is no \<open>Continue\<close> at all, \<open>WaitEvalResult\<close> returns that status, and no
  evaluation is running afterwards.
\<close>

theorem setup_callback_once:
  assumes "WaitEvalResult E pThread slot evs1 evs2 s = Inr (ret, slot', s')"
    and "\<not> FAILED (respond E (length (trace s)) (Thread_GetProcess pThread))"
    and "GetProcess_out E pThread \<noteq> None"
    and "\<not> FAILED (respond E (Suc (length (trace s))) (Thread_GetID pThread))"
    and "\<forall>n. \<not> FAILED (respond E n (Thread_CreateEval pThread))"
  shows "\<exists>hrC e hrS rest.
           milestones (trace s') = milestones (trace s)
              @ (Thread_CreateEval pThread, hrC) # (cbSetupEval e, hrS) # rest
           \<and> (\<forall>x \<in> set rest. fst x = Process_Continue)
           \<and> (FAILED hrS \<longrightarrow> rest = [] \<and> ret = hrS \<and> \<not> IsEvalRunning s')"
proof -
  from assms(1) WaitEvalResult_reached [OF assms(2-4), of slot evs1 evs2]
  obtain wres where "WaitResult E pThread (GetID_out E pThread) slot evs1 evs2
      (eval_entry E pThread s) = Inr wres"
    by (cases "WaitResult E pThread (GetID_out E pThread) slot evs1 evs2
      (eval_entry E pThread s)") auto
  then obtain raw tmo slot'' s5 where w: "WaitResult E pThread (GetID_out E pThread) slot evs1 evs2
      (eval_entry E pThread s) = Inr (raw, tmo, slot'', s5)"
    by (cases wres) auto
  note fin = WaitEvalResult_final [OF assms(2-4) w assms(1)]
  from milestones_WaitResult [OF w assms(5)] obtain hrC e hrS rest
    where m: "milestones (trace s5) = milestones (trace s)
              @ (Thread_CreateEval pThread, hrC) # (cbSetupEval e, hrS) # rest"
      and c: "\<forall>x \<in> set rest. fst x = Process_Continue"
      and f: "FAILED hrS \<longrightarrow> rest = [] \<and> raw = hrS \<and> \<not> tmo \<and> m_evalResult s5 = None"
    by auto
  from milestones_ChangeThreadsState [OF fin(7)] m
  have "milestones (trace s') = milestones (trace s)
              @ (Thread_CreateEval pThread, hrC) # (cbSetupEval e, hrS) # rest"
    by simp
  moreover from f fin(1,5)
  have "FAILED hrS \<longrightarrow> rest = [] \<and> ret = hrS \<and> \<not> IsEvalRunning s'"
    by (auto simp: IsEvalRunning_def)
  ultimately show ?thesis using c by blast
qed

text \<open>
  A failing setup callback, and a successful evaluation.
\<close>

theorem setup_callback_once_witness:
  "returned_status (WaitEvalResult engine_setup_fails 1 None [] [] idle) = Some E_FAIL
   \<and> map_option IsEvalRunning (returned_state (WaitEvalResult engine_setup_fails 1 None [] [] idle))
        = Some False
   \<and> map_option milestones (map_option trace
        (returned_state (WaitEvalResult engine_setup_fails 1 None [] [] idle)))
        = Some [(Thread_CreateEval 1, S_OK), (cbSetupEval 7, E_FAIL)]
   \<and> map_option milestones (map_option trace
        (returned_state (WaitEvalResult engine_ok 1 None
           [Ev_NotifyEvalComplete (Some 1) (Some 7)] [] idle)))
        = Some [(Thread_CreateEval 1, S_OK), (cbSetupEval 7, S_OK), (Process_Continue, S_OK)]"
proof -
  have acc: "\<not> FAILED (respond E (length (trace idle)) (Thread_GetProcess 1))"
    "GetProcess_out E 1 \<noteq> None"
    "\<not> FAILED (respond E (Suc (length (trace idle))) (Thread_GetID 1))"
    "\<forall>n. \<not> FAILED (respond E n (Thread_CreateEval 1))"
    if "E = engine_ok \<or> E = engine_setup_fails" for E
    using that by (auto simp: example_defs)
  have "\<exists>ret slot' s'. WaitEvalResult engine_setup_fails 1 None [] [] idle = Inr (ret, slot', s')
      \<and> milestones (trace s') = [(Thread_CreateEval 1, S_OK), (cbSetupEval 7, E_FAIL)]"
    by (simp add: model_defs example_defs Let_def cong: let_weak_cong)
  then obtain ret slot' s'
    where r: "WaitEvalResult engine_setup_fails 1 None [] [] idle = Inr (ret, slot', s')"
      and m: "milestones (trace s') = [(Thread_CreateEval 1, S_OK), (cbSetupEval 7, E_FAIL)]"
    by blast
  have i: "milestones (trace idle) = []"
    by (simp add: example_defs)
  from setup_callback_once [OF r acc [of engine_setup_fails]] m i
  have "ret = E_FAIL \<and> \<not> IsEvalRunning s'"
    by auto
  with r m have 1: "returned_status (WaitEvalResult engine_setup_fails 1 None [] [] idle) = Some E_FAIL
   \<and> map_option IsEvalRunning (returned_state (WaitEvalResult engine_setup_fails 1 None [] [] idle))
        = Some False
   \<and> map_option milestones (map_option trace
        (returned_state (WaitEvalResult engine_setup_fails 1 None [] [] idle)))
        = Some [(Thread_CreateEval 1, S_OK), (cbSetupEval 7, E_FAIL)]"
    by (simp add: returned_status_def returned_state_def)
  have 2: "map_option milestones (map_option trace
        (returned_state (WaitEvalResult engine_ok 1 None
           [Ev_NotifyEvalComplete (Some 1) (Some 7)] [] idle)))
        = Some [(Thread_CreateEval 1, S_OK), (cbSetupEval 7, S_OK), (Process_Continue, S_OK)]"
    by (simp add: model_defs example_defs Let_def cong: let_weak_cong)
  from 1 2 show ?thesis by simp
qed

section \<open>Traces only grow\<close>

lemma extends_refl [simp]: "extends s s"
  by (simp add: extends_def)

lemma extends_trans: "extends a b \<Longrightarrow> extends b c \<Longrightarrow> extends a c"
  by (auto simp: extends_def)

lemma extends_call [simp]: "extends s (snd (call E c s))"
  by (simp add: extends_def)

lemma extends_SetDebugState [simp]: "extends s (SetDebugState E t st s)"
  by (simp add: extends_def SetDebugState_def Let_def split_def)

lemma extends_ChangeThreadsState_loop: "extends s (ChangeThreadsState_loop E tid st ts s)"
proof (induction ts arbitrary: s)
  case Nil
  show ?case by simp
next
  case (Cons t ts)
  have step: "extends s (if c then SetDebugState E t st (snd (call E a (snd (call E b s))))
                         else snd (call E a (snd (call E b s))))" for a b c
    by (auto simp: extends_def SetDebugState_def Let_def split_def)
  show ?case
    using extends_trans [OF step Cons.IH]
    by (simp add: Let_def split_def)
qed

lemma extends_ChangeThreadsState:
  assumes "ChangeThreadsState E tid st s = Inr s'"
  shows "extends s s'"
proof -
  from assms have "s' = ChangeThreadsState_loop E tid st
      (EnumerateThreads_out E (length (trace s))) (snd (call E Process_EnumerateThreads s))"
    by (auto simp: ChangeThreadsState_def Let_def split_def split: if_splits)
  with extends_trans [OF extends_call extends_ChangeThreadsState_loop]
  show ?thesis by simp
qed





section \<open>Events during a wait\<close>

lemma run_events_append: "run_events E (a @ b) s = run_events E b (run_events E a s)"
  by (induction a arbitrary: s) simp_all

lemma idle_run_event:
  assumes "m_evalResult s = None"
  shows "m_evalResult (run_event E ev s) = None" "shared (run_event E ev s) = shared s"
    "m_evalCanceled (run_event E ev s) = m_evalCanceled s"
    "m_evalCrossThreadDependency (run_event E ev s) = m_evalCrossThreadDependency s"
  using assms
  by (cases ev;
      simp add: NotifyEvalComplete_def CancelEvalRunning_def ManagedCallbackCustomNotification_def
        FindEvalForThread_def Let_def split_def split: option.splits)+

lemma idle_run_events:
  assumes "m_evalResult s = None"
  shows "m_evalResult (run_events E evs s) = None \<and> shared (run_events E evs s) = shared s
    \<and> m_evalCanceled (run_events E evs s) = m_evalCanceled s
    \<and> m_evalCrossThreadDependency (run_events E evs s) = m_evalCrossThreadDependency s"
  using assms by (induction evs arbitrary: s) (simp_all add: idle_run_event)

lemma leaves_pending_run_event:
  assumes "armed_for tid e f s" and "leaves_pending E tid ev"
  shows "armed_for tid e f (run_event E ev s)"
proof (cases ev)
  case (Ev_NotifyEvalComplete pt pe)
  with assms obtain t where "pt = Some t" "GetID_out E t \<noteq> tid" "tid \<noteq> 0"
    by (cases pt) auto
  with assms(1) Ev_NotifyEvalComplete show ?thesis
    by (auto simp: armed_for_def NotifyEvalComplete_def Let_def split_def split: option.splits)
next
  case Ev_CancelEvalRunning
  with assms(1) show ?thesis
    by (auto simp: armed_for_def CancelEvalRunning_def Let_def split_def)
next
  case (Ev_ManagedCallbackCustomNotification t)
  with assms(1) show ?thesis
    by (auto simp: armed_for_def ManagedCallbackCustomNotification_def FindEvalForThread_def
          Let_def split_def)
qed

lemma leaves_pending_run_events:
  assumes "armed_for tid e f s" and "list_all (leaves_pending E tid) evs"
  shows "armed_for tid e f (run_events E evs s)"
  using assms by (induction evs arbitrary: s) (simp_all add: leaves_pending_run_event)

lemma completion_delivers:
  assumes "armed_for tid e f s" and "GetID_out E t = tid"
    and "\<forall>n. \<not> FAILED (respond E n (Thread_GetID t))"
    and "\<forall>n. respond E n (Eval_GetResult e') = hr"
    and "\<forall>n. GetResult_out E n e' = v"
  shows "m_evalResult (NotifyEvalComplete E (Some t) (Some e') s) = None"
    and "shared (NotifyEvalComplete E (Some t) (Some e') s) f = Ready \<lparr>iCorEval = v, Status = hr\<rparr>"
    and "m_evalCanceled (NotifyEvalComplete E (Some t) (Some e') s) = m_evalCanceled s"
    and "m_evalCrossThreadDependency (NotifyEvalComplete E (Some t) (Some e') s)
           = m_evalCrossThreadDependency s"
  using assms
  by (simp_all add: armed_for_def NotifyEvalComplete_def Let_def split_def shared_reset_evalResult)

lemma wait_for_completed:
  assumes "armed_for tid e f s"
    and "evs = pre @ Ev_NotifyEvalComplete (Some t) (Some e') # post"
    and "list_all (leaves_pending E tid) pre"
    and "GetID_out E t = tid"
    and "\<forall>n. \<not> FAILED (respond E n (Thread_GetID t))"
    and "\<forall>n. respond E n (Eval_GetResult e') = hr"
    and "\<forall>n. GetResult_out E n e' = v"
  shows "\<exists>s4. wait_for E f evs s = (ready, s4)
           \<and> shared s4 f = Ready \<lparr>iCorEval = v, Status = hr\<rparr> \<and> m_evalResult s4 = None"
proof -
  define s1 where "s1 = run_events E pre s"
  define s2 where "s2 = NotifyEvalComplete E (Some t) (Some e') s1"
  have a1: "armed_for tid e f s1"
    unfolding s1_def by (rule leaves_pending_run_events [OF assms(1,3)])
  note d = completion_delivers [OF a1 assms(4-7), folded s2_def]
  from idle_run_events [OF d(1), of E post] d
  have "shared (run_events E post s2) f = Ready \<lparr>iCorEval = v, Status = hr\<rparr>"
    "m_evalResult (run_events E post s2) = None"
    by simp_all
  moreover have "run_events E evs s = run_events E post s2"
    by (simp add: assms(2) run_events_append s1_def s2_def)
  moreover from assms(1) have "shared s f = Pending"
    by (simp add: armed_for_def)
  ultimately show ?thesis
    by (simp add: wait_for_def)
qed


lemma await_result_ready:
  assumes "shared s f = Ready d"
  shows "await_result E f slot evs s =
     (if FAILED (Status d) then (Status d, slot, s)
      else if slot = None then (S_OK, None, s)
      else (Status d, Some (iCorEval d), s))"
  using assms by (simp add: await_result_def wait_for_def split: option.splits)

lemma ChangeThreadsState_returns:
  assumes "\<forall>n. \<not> FAILED (respond E n Process_EnumerateThreads)"
  shows "\<exists>s'. ChangeThreadsState E tid st s = Inr s'"
  using assms by (simp add: ChangeThreadsState_def Let_def split_def)

lemma RunEval_started:
  assumes "m_evalResult s = None"
    and "\<forall>n. \<not> FAILED (respond E n (Thread_GetID pThread))"
    and "\<forall>n e. \<not> FAILED (respond E n (cbSetupEval e))"
    and "\<forall>n. \<not> FAILED (respond E n Process_Continue)"
  shows "\<exists>hr s3. RunEval E pThread e s = Inr (hr, next_promise s, s3) \<and> \<not> FAILED hr
           \<and> armed_for (GetID_out E pThread) e (next_promise s) s3
           \<and> m_evalCanceled s3 = m_evalCanceled s
           \<and> m_evalCrossThreadDependency s3 = m_evalCrossThreadDependency s
           \<and> extends s s3"
  using assms by (simp add: RunEval_def armed_for_def extends_def Let_def split_def)

lemma WaitResult_started:
  assumes "starts_eval E pThread" and "m_evalResult s = None"
  shows "\<exists>e s3. WaitResult E pThread (GetID_out E pThread) slot evs1 evs2 s
              = wait_with_timeout E (GetID_out E pThread) e (next_promise s) slot evs1 evs2 s3
           \<and> armed_for (GetID_out E pThread) e (next_promise s) s3
           \<and> m_evalCanceled s3 = m_evalCanceled s
           \<and> m_evalCrossThreadDependency s3 = m_evalCrossThreadDependency s
           \<and> (\<exists>n. e = CreateEval_out E n)
           \<and> extends s s3"
proof -
  from assms(1) have en: "\<forall>n. \<not> FAILED (respond E n Process_EnumerateThreads)"
    and ce: "\<forall>n. \<not> FAILED (respond E n (Thread_CreateEval pThread))"
    and r: "\<forall>n. \<not> FAILED (respond E n (Thread_GetID pThread))"
      "\<forall>n e. \<not> FAILED (respond E n (cbSetupEval e))"
      "\<forall>n. \<not> FAILED (respond E n Process_Continue)"
    by (simp_all add: starts_eval_def)
  from ChangeThreadsState_returns [OF en] obtain s1
    where s1: "ChangeThreadsState E (GetID_out E pThread) THREAD_SUSPEND s = Inr s1"
    by blast
  define s2 where "s2 = snd (call E (Thread_CreateEval pThread) s1)"
  define e where "e = CreateEval_out E (length (trace s1))"
  from ChangeThreadsState_frame [OF s1] assms(2)
  have f2: "m_evalResult s2 = None" "next_promise s2 = next_promise s"
    "m_evalCanceled s2 = m_evalCanceled s"
    "m_evalCrossThreadDependency s2 = m_evalCrossThreadDependency s"
    by (simp_all add: s2_def)
  from RunEval_started [OF f2(1) r, of e] f2 obtain hr s3
    where s3: "RunEval E pThread e s2 = Inr (hr, next_promise s, s3)" "\<not> FAILED hr"
      "armed_for (GetID_out E pThread) e (next_promise s) s3"
      "m_evalCanceled s3 = m_evalCanceled s"
      "m_evalCrossThreadDependency s3 = m_evalCrossThreadDependency s"
      "extends s2 s3"
    by auto
  from extends_ChangeThreadsState [OF s1] s3(6) have "extends s s3"
    by (auto simp: extends_def s2_def)
  moreover from s1 s3(1,2) ce
  have "WaitResult E pThread (GetID_out E pThread) slot evs1 evs2 s
      = wait_with_timeout E (GetID_out E pThread) e (next_promise s) slot evs1 evs2 s3"
    by (simp add: WaitResult_def Let_def split_def s2_def e_def)
  ultimately show ?thesis using s3 unfolding e_def by blast
qed

lemma WaitEvalResult_started:
  assumes "starts_eval E pThread" and "m_evalResult s = None"
    and "WaitResult E pThread (GetID_out E pThread) slot evs1 evs2 (eval_entry E pThread s)
           = Inr (raw, tmo, slot', s5)"
  shows "\<exists>s'. WaitEvalResult E pThread slot evs1 evs2 s =
            Inr (if raw = CORDBG_S_FUNC_EVAL_ABORTED then
                   (if m_evalCrossThreadDependency s' then CORDBG_E_CANT_CALL_ON_THIS_THREAD
                    else if m_evalCanceled s' then COR_E_OPERATIONCANCELED
                    else COR_E_TIMEOUT)
                 else if tmo then (if raw = E_UNEXPECTED then E_UNEXPECTED else COR_E_TIMEOUT)
                 else raw, slot', s')
          \<and> m_evalResult s' = m_evalResult s5 \<and> shared s' = shared s5
          \<and> m_evalCanceled s' = m_evalCanceled s5
          \<and> m_evalCrossThreadDependency s' = m_evalCrossThreadDependency s5
          \<and> extends s5 s'"
proof -
  from assms(1) have en: "\<forall>n. \<not> FAILED (respond E n Process_EnumerateThreads)"
    and reach: "\<not> FAILED (respond E (length (trace s)) (Thread_GetProcess pThread))"
      "GetProcess_out E pThread \<noteq> None"
      "\<not> FAILED (respond E (Suc (length (trace s))) (Thread_GetID pThread))"
    by (simp_all add: starts_eval_def)
  from ChangeThreadsState_returns [OF en] obtain s7
    where s7: "ChangeThreadsState E (GetID_out E pThread) THREAD_RUN
                  (snd (SetEnableCustomNotification E False s5)) = Inr s7"
    by blast
  from extends_ChangeThreadsState [OF s7] have "extends s5 s7"
    by (auto simp: extends_def SetEnableCustomNotification_def Let_def split_def)
  with ChangeThreadsState_frame [OF s7] WaitEvalResult_reached [OF reach, of slot evs1 evs2]
    assms(3) s7
  show ?thesis by simp
qed

section \<open>Delivery of the outcome\<close>

text \<open>
  Claim C1, as the code has it. The engine lets the evaluation start, and during the first
  wait a completion for the evaluating thread's id arrives (before it, only events that
  leave the future pending), delivering the status \<open>hr\<close> and the value handle \<open>v\<close> read
  from the engine. Then \<open>WaitEvalResult\<close> returns, the request is consumed, the future
  holds exactly that outcome, and:
  \<^item> a failure status \<open>hr\<close> is returned as it is and the output slot is left alone;
  \<^item> otherwise, without an output slot, \<open>S_OK\<close> is returned;
  \<^item> otherwise \<open>v\<close> is stored in the output slot and \<open>hr\<close> is returned, except that the
    aborted status is returned translated by the two flags.
\<close>

theorem WaitEvalResult_delivers_outcome:
  assumes "m_evalResult s = None" and "starts_eval E pThread"
    and "evs1 = pre @ Ev_NotifyEvalComplete (Some t) (Some e) # post"
    and "list_all (leaves_pending E (GetID_out E pThread)) pre"
    and "GetID_out E t = GetID_out E pThread"
    and "\<forall>n. \<not> FAILED (respond E n (Thread_GetID t))"
    and "\<forall>n. respond E n (Eval_GetResult e) = hr"
    and "\<forall>n. GetResult_out E n e = v"
  shows "\<exists>s'. WaitEvalResult E pThread slot evs1 evs2 s =
            Inr (if FAILED hr then hr
                 else if slot = None then S_OK
                 else if hr = CORDBG_S_FUNC_EVAL_ABORTED then
                   (if m_evalCrossThreadDependency s' then CORDBG_E_CANT_CALL_ON_THIS_THREAD
                    else if m_evalCanceled s' then COR_E_OPERATIONCANCELED
                    else COR_E_TIMEOUT)
                 else hr,
                 if FAILED hr \<or> slot = None then slot else Some v,
                 s')
          \<and> m_evalResult s' = None
          \<and> shared s' (next_promise s) = Ready \<lparr>iCorEval = v, Status = hr\<rparr>"
proof -
  define tid where "tid = GetID_out E pThread"
  define f where "f = next_promise s"
  define d where "d = \<lparr>iCorEval = v, Status = hr\<rparr>"
  have idle': "m_evalResult (eval_entry E pThread s) = None"
    using assms(1) by simp
  from WaitResult_started [OF assms(2) idle', of slot evs1 evs2] obtain e0 s3
    where w: "WaitResult E pThread tid slot evs1 evs2 (eval_entry E pThread s)
                = wait_with_timeout E tid e0 f slot evs1 evs2 s3"
      and a: "armed_for tid e0 f s3"
    by (auto simp: tid_def f_def)
  from wait_for_completed [OF a assms(3) assms(4) [folded tid_def] assms(5) [folded tid_def]
      assms(6-8)]
  obtain s4 where s4: "wait_for E f evs1 s3 = (ready, s4)" "shared s4 f = Ready d"
      "m_evalResult s4 = None"
    by (auto simp: d_def)
  define raw where "raw = (if FAILED hr then hr else if slot = None then S_OK else hr)"
  define slot' where "slot' = (if FAILED hr \<or> slot = None then slot else Some v)"
  from s4 await_result_ready [OF s4(2), of E slot evs2]
  have "wait_with_timeout E tid e0 f slot evs1 evs2 s3 = Inr (raw, False, slot', s4)"
    by (auto simp: wait_with_timeout_def raw_def slot'_def d_def)
  with w have w': "WaitResult E pThread (GetID_out E pThread) slot evs1 evs2 (eval_entry E pThread s)
      = Inr (raw, False, slot', s4)"
    by (simp add: tid_def)
  from WaitEvalResult_started [OF assms(2,1) w'] obtain s'
    where r: "WaitEvalResult E pThread slot evs1 evs2 s =
            Inr (if raw = CORDBG_S_FUNC_EVAL_ABORTED then
                   (if m_evalCrossThreadDependency s' then CORDBG_E_CANT_CALL_ON_THIS_THREAD
                    else if m_evalCanceled s' then COR_E_OPERATIONCANCELED
                    else COR_E_TIMEOUT)
                 else raw, slot', s')"
      and s': "m_evalResult s' = m_evalResult s4" "shared s' = shared s4"
    by auto
  have "(if raw = CORDBG_S_FUNC_EVAL_ABORTED then
                   (if m_evalCrossThreadDependency s' then CORDBG_E_CANT_CALL_ON_THIS_THREAD
                    else if m_evalCanceled s' then COR_E_OPERATIONCANCELED
                    else COR_E_TIMEOUT)
                 else raw)
      = (if FAILED hr then hr
                 else if slot = None then S_OK
                 else if hr = CORDBG_S_FUNC_EVAL_ABORTED then
                   (if m_evalCrossThreadDependency s' then CORDBG_E_CANT_CALL_ON_THIS_THREAD
                    else if m_evalCanceled s' then COR_E_OPERATIONCANCELED
                    else COR_E_TIMEOUT)
                 else hr)"
    by (auto simp: raw_def)
  with r s' s4 show ?thesis
    by (intro exI [of _ s']) (simp add: slot'_def f_def d_def)
qed

text \<open>
  A completion for another thread id, then the completion for the evaluating thread.
\<close>

theorem WaitEvalResult_delivers_outcome_witness:
  "returned_status (WaitEvalResult engine_ok 1 (Some None)
      [Ev_NotifyEvalComplete (Some 2) (Some 7), Ev_NotifyEvalComplete (Some 1) (Some 7)] [] idle)
      = Some S_OK
   \<and> returned_slot (WaitEvalResult engine_ok 1 (Some None)
      [Ev_NotifyEvalComplete (Some 2) (Some 7), Ev_NotifyEvalComplete (Some 1) (Some 7)] [] idle)
      = Some (Some (Some 42))
   \<and> returned_future (WaitEvalResult engine_ok 1 (Some None)
      [Ev_NotifyEvalComplete (Some 2) (Some 7), Ev_NotifyEvalComplete (Some 1) (Some 7)] [] idle) 0
      = Some (Ready \<lparr>iCorEval = Some 42, Status = S_OK\<rparr>)"
proof -
  have h: "m_evalResult idle = None" "starts_eval engine_ok 1"
    "[Ev_NotifyEvalComplete (Some 2) (Some 7), Ev_NotifyEvalComplete (Some 1) (Some 7)]
       = [Ev_NotifyEvalComplete (Some 2) (Some 7)] @ Ev_NotifyEvalComplete (Some 1) (Some 7) # []"
    "list_all (leaves_pending engine_ok (GetID_out engine_ok 1)) [Ev_NotifyEvalComplete (Some 2) (Some 7)]"
    "GetID_out engine_ok 1 = GetID_out engine_ok 1"
    "\<forall>n. \<not> FAILED (respond engine_ok n (Thread_GetID 1))"
    "\<forall>n. respond engine_ok n (Eval_GetResult 7) = S_OK"
    "\<forall>n. GetResult_out engine_ok n 7 = Some 42"
    by (simp_all add: example_defs starts_eval_def)
  have n: "next_promise idle = 0"
    by (simp add: example_defs)
  from WaitEvalResult_delivers_outcome [OF h, of "Some None" "[]"] n
  show ?thesis
    by (auto simp: returned_status_def returned_slot_def returned_future_def)
qed

text \<open>
  A delivered success status is not always returned as delivered. Without an output slot a
  delivered \<open>CORDBG_S_FUNC_EVAL_HAS_NO_RESULT\<close> comes back as \<open>S_OK\<close>; and a delivered
  aborted status, here after a cancellation, comes back as "operation canceled".
\<close>

theorem WaitEvalResult_delivers_outcome_counterexample:
  "returned_future (WaitEvalResult engine_no_result 1 None
      [Ev_NotifyEvalComplete (Some 1) (Some 7)] [] idle) 0
      = Some (Ready \<lparr>iCorEval = Some 42, Status = CORDBG_S_FUNC_EVAL_HAS_NO_RESULT\<rparr>)
   \<and> \<not> FAILED CORDBG_S_FUNC_EVAL_HAS_NO_RESULT
   \<and> returned_status (WaitEvalResult engine_no_result 1 None
      [Ev_NotifyEvalComplete (Some 1) (Some 7)] [] idle) = Some S_OK
   \<and> S_OK \<noteq> CORDBG_S_FUNC_EVAL_HAS_NO_RESULT
   \<and> returned_future (WaitEvalResult engine_aborted 1 (Some None)
      [Ev_CancelEvalRunning, Ev_NotifyEvalComplete (Some 1) (Some 7)] [] idle) 0
      = Some (Ready \<lparr>iCorEval = Some 42, Status = CORDBG_S_FUNC_EVAL_ABORTED\<rparr>)
   \<and> \<not> FAILED CORDBG_S_FUNC_EVAL_ABORTED
   \<and> returned_status (WaitEvalResult engine_aborted 1 (Some None)
      [Ev_CancelEvalRunning, Ev_NotifyEvalComplete (Some 1) (Some 7)] [] idle)
      = Some COR_E_OPERATIONCANCELED
   \<and> COR_E_OPERATIONCANCELED \<noteq> CORDBG_S_FUNC_EVAL_ABORTED"
proof -
  have "CORDBG_S_FUNC_EVAL_ABORTED \<noteq> COR_E_OPERATIONCANCELED"
    by (simp add: CORDBG_S_FUNC_EVAL_ABORTED_def COR_E_OPERATIONCANCELED_def)
  then show ?thesis
    by (simp add: model_defs example_defs Let_def cong: let_weak_cong)
qed

section \<open>Timeout, abort and the fatal outcome\<close>















end
